theory Spec2Isabelle
  imports Main "HOL-Library.AList"
begin

section \<open>The strings package, as far as request.go calls it\<close>

text \<open>
  Go strings are byte sequences; \<open>string\<close> is a list of 8-bit characters. The five
  functions below follow the library's own loops: \<open>Contains\<close>, \<open>Count\<close> and \<open>Split\<close>
  are all driven by \<open>Index\<close> (position of the first occurrence), \<open>Count\<close> counts
  non-overlapping occurrences, \<open>Split\<close> with \<open>k\<close> occurrences of the separator returns
  \<open>k + 1\<close> pieces. An empty separator makes \<open>Count\<close> and \<open>Split\<close> work per character;
  request.go never passes one.
\<close>

definition strings_HasPrefix :: "string \<Rightarrow> string \<Rightarrow> bool" where
  "strings_HasPrefix s p = (length p \<le> length s \<and> take (length p) s = p)"

fun strings_Index :: "string \<Rightarrow> string \<Rightarrow> nat option" where
  "strings_Index [] sub = (if sub = [] then Some 0 else None)"
| "strings_Index (c # cs) sub =
     (if strings_HasPrefix (c # cs) sub then Some 0
      else map_option Suc (strings_Index cs sub))"

definition strings_Contains :: "string \<Rightarrow> string \<Rightarrow> bool" where
  "strings_Contains s sub = (strings_Index s sub \<noteq> None)"

lemma strings_Index_bound:
  "strings_Index s sub = Some i \<Longrightarrow> i + length sub \<le> length s"
proof (induction s arbitrary: i)
  case Nil
  then show ?case by (simp split: if_splits)
next
  case (Cons c cs)
  show ?case
  proof (cases "strings_HasPrefix (c # cs) sub")
    case True
    with Cons.prems show ?thesis by (simp add: strings_HasPrefix_def)
  next
    case False
    with Cons.prems obtain j where "strings_Index cs sub = Some j" "i = Suc j"
      by auto
    with Cons.IH show ?thesis by fastforce
  qed
qed

function strings_Count :: "string \<Rightarrow> string \<Rightarrow> nat" where
  "strings_Count s sub =
     (if sub = [] then length s + 1
      else case strings_Index s sub of
             None \<Rightarrow> 0
           | Some i \<Rightarrow> 1 + strings_Count (drop (i + length sub) s) sub)"
  by pat_completeness auto
termination
proof (relation "measure (\<lambda>(s, sub). length s)")
  show "wf (measure (\<lambda>(s, sub). length s))" by simp
next
  fix s sub :: string and i
  assume "sub \<noteq> []" "strings_Index s sub = Some i"
  then have "i + length sub \<le> length s" "0 < length sub"
    using strings_Index_bound by auto
  then show "((drop (i + length sub) s, sub), (s, sub)) \<in> measure (\<lambda>(s, sub). length s)"
    by (cases sub) simp_all
qed

function strings_Split :: "string \<Rightarrow> string \<Rightarrow> string list" where
  "strings_Split s sep =
     (if sep = [] then map (\<lambda>c. [c]) s
      else case strings_Index s sep of
             None \<Rightarrow> [s]
           | Some m \<Rightarrow> take m s # strings_Split (drop (m + length sep) s) sep)"
  by pat_completeness auto
termination
proof (relation "measure (\<lambda>(s, sep). length s)")
  show "wf (measure (\<lambda>(s, sep). length s))" by simp
next
  fix s sep :: string and m
  assume "sep \<noteq> []" "strings_Index s sep = Some m"
  then have "m + length sep \<le> length s" "0 < length sep"
    using strings_Index_bound by auto
  then show "((drop (m + length sep) s, sep), (s, sep)) \<in> measure (\<lambda>(s, sep). length s)"
    by (cases sep) simp_all
qed

declare strings_Count.simps [simp del] strings_Split.simps [simp del]
  strings_Index.simps(2) [simp del]

fun strings_Join :: "string list \<Rightarrow> string \<Rightarrow> string" where
  "strings_Join [] sep = []"
| "strings_Join [x] sep = x"
| "strings_Join (x # y # ys) sep = x @ sep @ strings_Join (y # ys) sep"

section \<open>Constants and errors of package httpreq\<close>

definition ContentTypeJSON :: string where
  "ContentTypeJSON = ''application/json''"

definition ContentTypeURLENCODED :: string where
  "ContentTypeURLENCODED = ''application/x-www-form-urlencoded''"

definition pathParamIndicator :: string where
  "pathParamIndicator = '':''"

definition urlSeparator :: string where
  "urlSeparator = ''/''"

definition urlPathParamSeparator :: string where
  "urlPathParamSeparator = ''/:''"

text \<open>Durations are nanosecond counts; 30 seconds is the default timeout.\<close>

definition defaultTimeout :: int where
  "defaultTimeout = 30 * 1000000000"

text \<open>An error value handed back by a library collaborator (its message).\<close>

type_synonym lib_error = string

text \<open>
  The six sentinel errors of request.go under their own names, and one constructor for
  each \<open>fmt.Errorf\<close> wrapping site, named after the specification's taxonomy:
  \<^item> \<open>SerializationFailed\<close>: "failed to marshall json request: %w"
  \<^item> \<open>RequestConstructionFailed\<close>: "failed to create request :%w"
  \<^item> \<open>QueryUnescapeFailed\<close>: "query unescape failed: %w"
  \<^item> \<open>ProxyParseFailed\<close>: "failed to parse proxy url %w"
  \<^item> \<open>DispatchFailed\<close>: "dispatching request failed :%w"
  \<^item> \<open>ResponseReadFailed\<close>: "error reading body: %v"
  \<^item> \<open>DecodeFailed\<close>: "failed to decode %d response: %w"
\<close>

datatype error =
    errPathParamConflift
  | errorMethodIsEmpty
  | errMethodUnknown
  | errorResponseStructIsNil
  | errNoPathParamValueSet
  | errPathParamPassedIncorrect
  | SerializationFailed lib_error
  | RequestConstructionFailed lib_error
  | QueryUnescapeFailed lib_error
  | ProxyParseFailed lib_error
  | DispatchFailed lib_error
  | ResponseReadFailed lib_error
  | DecodeFailed int lib_error

text \<open>
  A run-time panic: reading a slice at an index that is not below its length (the index
  and the length), or calling through a nil pointer.
\<close>

datatype go_panic = IndexOutOfRange nat nat | NilPointerDereference

section \<open>Library types the builder holds\<close>

text \<open>
  \<open>url.Values\<close> is a map from a key to the list of its values; \<open>Add\<close> appends a value
  to the key's list. A parsed \<open>url.URL\<close> is kept as its raw query and the rest.
\<close>

type_synonym url_Values = "(string \<times> string list) list"

definition Values_Add :: "url_Values \<Rightarrow> string \<Rightarrow> string \<Rightarrow> url_Values" where
  "Values_Add q k v =
     (case map_of q k of
        None \<Rightarrow> q @ [(k, [v])]
      | Some vs \<Rightarrow> AList.update k (vs @ [v]) q)"

record url_URL =
  url_Rest :: string
  url_RawQuery :: string

datatype http_RoundTripper =
    DefaultTransport
  | ProxyTransport url_URL
  | CallerTransport nat

record http_Client =
  cli_Transport :: "http_RoundTripper option"
  cli_Timeout :: int

text \<open>
  A request body is a reader the caller supplied (an opaque handle) or a buffer that
  Dispatch made over bytes of its own.
\<close>

datatype io_Reader = CallerReader nat | BytesBuffer string

record http_Request =
  req_Method :: string
  req_URL :: url_URL
  req_Header :: "(string \<times> string) list"
  req_Body :: "io_Reader option"

text \<open>\<open>Header.Add\<close> appends; the list keeps the calls in their order.\<close>

definition Header_Add :: "http_Request \<Rightarrow> string \<Rightarrow> string \<Rightarrow> http_Request" where
  "Header_Add req k v = req\<lparr>req_Header := req_Header req @ [(k, v)]\<rparr>"

datatype io_ReadCloser = NetBody nat | NopCloser string

record http_Response =
  res_StatusCode :: int
  res_Status :: string
  res_Body :: io_ReadCloser

section \<open>Request, its constructor and its setters\<close>

text \<open>
  The two Go maps (\<open>headers\<close>, \<open>queryParams\<close>) are association lists with one entry
  per key, in the order a \<open>range\<close> loop visits them. \<open>bodyStruct\<close> is an \<open>interface{}\<close>:
  any type \<open>'o\<close>, or nil.
\<close>

record 'o Request =
  url :: string
  "method" :: string
  headers :: "(string \<times> string) list"
  pathParams :: "string list"
  queryParams :: "(string \<times> string) list"
  unescapeQueryParams :: bool
  httpcli :: "http_Client option"
  proxyURL :: string
  transport :: "http_RoundTripper option"
  timeout :: int
  contentType :: string
  verbose :: bool
  username :: string
  password :: string
  body :: "io_Reader option"
  bodyStruct :: "'o option"
  bodyValues :: "url_Values option"

definition New :: "string \<Rightarrow> string \<Rightarrow> 'o Request" where
  "New m u =
     \<lparr>url = u, method = m, headers = [], pathParams = [], queryParams = [],
      unescapeQueryParams = False, httpcli = None, proxyURL = [], transport = None,
      timeout = 0, contentType = [], verbose = False, username = [], password = [],
      body = None, bodyStruct = None, bodyValues = None\<rparr>"

definition HTTPClient :: "http_Client option \<Rightarrow> 'o Request \<Rightarrow> 'o Request" where
  "HTTPClient client r = r\<lparr>httpcli := client\<rparr>"

definition ProxyURL :: "string \<Rightarrow> 'o Request \<Rightarrow> 'o Request" where
  "ProxyURL u r = r\<lparr>proxyURL := u\<rparr>"

definition PathParams :: "string list \<Rightarrow> 'o Request \<Rightarrow> 'o Request" where
  "PathParams params r = r\<lparr>pathParams := params\<rparr>"

definition QueryParam :: "string \<Rightarrow> string \<Rightarrow> 'o Request \<Rightarrow> 'o Request" where
  "QueryParam k v r = r\<lparr>queryParams := AList.update k v (queryParams r)\<rparr>"

definition Header :: "string \<Rightarrow> string \<Rightarrow> 'o Request \<Rightarrow> 'o Request" where
  "Header k v r = r\<lparr>headers := AList.update k v (headers r)\<rparr>"

definition BodyStruct :: "'o option \<Rightarrow> 'o Request \<Rightarrow> 'o Request" where
  "BodyStruct request r = r\<lparr>bodyStruct := request\<rparr>"

definition BodyValues :: "url_Values option \<Rightarrow> 'o Request \<Rightarrow> 'o Request" where
  "BodyValues vs r = r\<lparr>bodyValues := vs\<rparr>"

definition Body :: "io_Reader option \<Rightarrow> 'o Request \<Rightarrow> 'o Request" where
  "Body reader r = r\<lparr>body := reader\<rparr>"

definition Timeout :: "int \<Rightarrow> 'o Request \<Rightarrow> 'o Request" where
  "Timeout t r = r\<lparr>timeout := t\<rparr>"

definition UnescapeQueryParams :: "bool \<Rightarrow> 'o Request \<Rightarrow> 'o Request" where
  "UnescapeQueryParams unescape r = r\<lparr>unescapeQueryParams := unescape\<rparr>"

definition Verbose :: "bool \<Rightarrow> 'o Request \<Rightarrow> 'o Request" where
  "Verbose v r = r\<lparr>verbose := v\<rparr>"

definition BasicAuth :: "string \<Rightarrow> string \<Rightarrow> 'o Request \<Rightarrow> 'o Request" where
  "BasicAuth u p r = r\<lparr>username := u, password := p\<rparr>"

section \<open>The validation gate\<close>

definition http_Methods :: "string list" where
  "http_Methods =
     [''GET'', ''POST'', ''PUT'', ''DELETE'', ''HEAD'', ''OPTIONS'', ''CONNECT'',
      ''TRACE'', ''PATCH'']"

text \<open>\<open>validateMethod\<close>: the switch on \<open>r.method\<close>; \<open>None\<close> is the nil error.\<close>

definition validateMethod :: "'o Request \<Rightarrow> error option" where
  "validateMethod r =
     (if method r = [] then Some errorMethodIsEmpty
      else if method r \<in> set http_Methods then None
      else Some errMethodUnknown)"

text \<open>
  The loop of \<open>validatePathParams\<close> over the pieces of the URL, from index \<open>idx\<close> into
  \<open>pathParams\<close>: a piece that starts with the indicator is replaced by
  \<open>pathParams[idx]\<close> and \<open>idx\<close> moves on. Reading \<open>pathParams[idx]\<close> with \<open>idx\<close> not
  below the length panics. The result is the new pieces and the final \<open>idx\<close>.
\<close>

fun setPathParams :: "string list \<Rightarrow> string list \<Rightarrow> nat \<Rightarrow> go_panic + (string list \<times> nat)" where
  "setPathParams [] params idx = Inr ([], idx)"
| "setPathParams (s # splits) params idx =
     (if strings_HasPrefix s pathParamIndicator then
        (if idx < length params then
           (case setPathParams splits params (Suc idx) of
              Inl p \<Rightarrow> Inl p
            | Inr (splits', n) \<Rightarrow> Inr (params ! idx # splits', n))
         else Inl (IndexOutOfRange idx (length params)))
      else
        (case setPathParams splits params idx of
           Inl p \<Rightarrow> Inl p
         | Inr (splits', n) \<Rightarrow> Inr (s # splits', n)))"

text \<open>
  \<open>validatePathParams\<close> returns its error (or nil) and the builder, whose \<open>url\<close> it
  overwrites on success; or it panics, before it has written anything.
\<close>

definition validatePathParams :: "'o Request \<Rightarrow> go_panic + (error option \<times> 'o Request)" where
  "validatePathParams r =
     (if strings_Contains (url r) urlPathParamSeparator then
        (let actualPathParamCount = length (pathParams r) in
         if actualPathParamCount = 0 then Inr (Some errNoPathParamValueSet, r)
         else if strings_Count (url r) urlPathParamSeparator \<noteq> actualPathParamCount
           then Inr (Some errPathParamPassedIncorrect, r)
         else
           (case setPathParams (strings_Split (url r) urlSeparator) (pathParams r) 0 of
              Inl p \<Rightarrow> Inl p
            | Inr (splits, idx) \<Rightarrow>
                if idx \<noteq> length (pathParams r) then Inr (Some errPathParamConflift, r)
                else Inr (None, r\<lparr>url := strings_Join splits urlSeparator\<rparr>)))
      else Inr (None, r))"

text \<open>The pieces of a split URL that start with the indicator: what the loop replaces.\<close>

definition placeholders :: "string list \<Rightarrow> nat" where
  "placeholders splits = length (filter (\<lambda>s. strings_HasPrefix s pathParamIndicator) splits)"

section \<open>Collaborators\<close>

text \<open>
  \<open>base64.StdEncoding.EncodeToString\<close>: the alphabet \<open>A-Z a-z 0-9 + /\<close>, three bytes
  to four characters, padded with \<open>=\<close>.
\<close>

definition encodeStd :: string where
  "encodeStd = ''ABCDEFGHIJKLMNOPQRSTUVWXYZabcdefghijklmnopqrstuvwxyz0123456789+/''"

fun base64_encode :: "nat list \<Rightarrow> string" where
  "base64_encode [] = []"
| "base64_encode [a] =
     [encodeStd ! (a div 4), encodeStd ! ((a mod 4) * 16), CHR ''='', CHR ''='']"
| "base64_encode [a, b] =
     [encodeStd ! (a div 4), encodeStd ! ((a mod 4) * 16 + b div 16),
      encodeStd ! ((b mod 16) * 4), CHR ''='']"
| "base64_encode (a # b # c # bs) =
     [encodeStd ! (a div 4), encodeStd ! ((a mod 4) * 16 + b div 16),
      encodeStd ! ((b mod 16) * 4 + c div 64), encodeStd ! (c mod 64)] @ base64_encode bs"

definition base64_StdEncoding_EncodeToString :: "string \<Rightarrow> string" where
  "base64_StdEncoding_EncodeToString s = base64_encode (map of_char s)"

text \<open>
  The library calls whose results request.go only passes on are parameters of the model:
  JSON encoding and decoding, URL parsing and query (un)escaping, the client's \<open>Do\<close> and
  reading a response body. \<open>http_NewRequest\<close> says whether \<open>http.NewRequest\<close> accepts
  a method and a URL, and gives the URL it parsed. \<open>Client_Do\<close> returns an error, with
  or without a response, or a response.
\<close>

datatype do_result = DoError lib_error "http_Response option" | DoOk http_Response

record 'o platform =
  json_Marshal :: "'o \<Rightarrow> lib_error + string"
  Values_Encode :: "url_Values \<Rightarrow> string"
  http_NewRequest :: "string \<Rightarrow> string \<Rightarrow> lib_error + url_URL"
  URL_Query :: "url_URL \<Rightarrow> url_Values"
  URL_String :: "url_URL \<Rightarrow> string"
  url_QueryUnescape :: "string \<Rightarrow> lib_error + string"
  url_Parse :: "string \<Rightarrow> lib_error + url_URL"
  Client_Do :: "http_Client \<Rightarrow> http_Request \<Rightarrow> do_result"
  ioutil_ReadAll :: "io_ReadCloser \<Rightarrow> lib_error + string"
  json_Decode :: "io_ReadCloser \<Rightarrow> 'o \<Rightarrow> lib_error + 'o"

text \<open>
  What Dispatch does to the outside: the requests it hands to a client, the lines it
  logs, the response bodies it closes.
\<close>

datatype log_line = LogDispatching string | LogResponse int string string

record world =
  sent :: "(http_Client \<times> http_Request) list"
  logged :: "log_line list"
  closed :: "io_ReadCloser list"

section \<open>Dispatch\<close>

definition basicAuth :: "string \<Rightarrow> string \<Rightarrow> string" where
  "basicAuth u p = (let auth = u @ '':'' @ p in base64_StdEncoding_EncodeToString auth)"

text \<open>Lines 199 to 213: the body and the content type.\<close>

definition resolveBody :: "'o platform \<Rightarrow> 'o Request \<Rightarrow> error + (io_Reader option \<times> string)" where
  "resolveBody P r =
     (case body r of
        Some b \<Rightarrow> Inr (Some b, contentType r)
      | None \<Rightarrow>
          (case bodyStruct r of
             Some obj \<Rightarrow>
               (case json_Marshal P obj of
                  Inl e \<Rightarrow> Inl (SerializationFailed e)
                | Inr bits \<Rightarrow> Inr (Some (BytesBuffer bits), ContentTypeJSON))
           | None \<Rightarrow>
               (case bodyValues r of
                  Some vs \<Rightarrow> Inr (Some (BytesBuffer (Values_Encode P vs)), ContentTypeURLENCODED)
                | None \<Rightarrow> Inr (None, contentType r))))"

text \<open>Lines 239 to 254: the query parameters, on a request that exists.\<close>

definition setQueryParams :: "'o platform \<Rightarrow> 'o Request \<Rightarrow> http_Request \<Rightarrow> error + http_Request" where
  "setQueryParams P r req =
     (if 0 < length (queryParams r) then
        (let q = fold (\<lambda>(k, v) q. Values_Add q k v) (queryParams r) (URL_Query P (req_URL req));
             params = Values_Encode P q
         in if unescapeQueryParams r then
              (case url_QueryUnescape P params of
                 Inl e \<Rightarrow> Inl (QueryUnescapeFailed e)
               | Inr params' \<Rightarrow> Inr (req\<lparr>req_URL := (req_URL req)\<lparr>url_RawQuery := params'\<rparr>\<rparr>))
            else Inr (req\<lparr>req_URL := (req_URL req)\<lparr>url_RawQuery := params\<rparr>\<rparr>))
      else Inr req)"

text \<open>Lines 216 to 254: the request, its headers and its query.\<close>

definition buildRequest :: "'o platform \<Rightarrow> 'o Request \<Rightarrow> io_Reader option \<Rightarrow> string \<Rightarrow> error + http_Request" where
  "buildRequest P r b ct =
     (case http_NewRequest P (method r) (url r) of
        Inl e \<Rightarrow> Inl (RequestConstructionFailed e)
      | Inr u \<Rightarrow>
          (let req0 = \<lparr>req_Method = method r, req_URL = u, req_Header = [], req_Body = b\<rparr>;
               req1 = (if username r \<noteq> [] \<or> password r \<noteq> []
                       then Header_Add req0 ''Authorization''
                              (''Basic '' @ basicAuth (username r) (password r))
                       else req0);
               req2 = (if ct \<noteq> [] then Header_Add req1 ''Content-Type'' ct else req1);
               req3 = (if 0 < length (headers r)
                       then fold (\<lambda>(k, v) q. Header_Add q k v) (headers r) req2
                       else req2)
           in setQueryParams P r req3))"

text \<open>
  The headers Dispatch adds of its own before the caller's: the basic-auth header
  (lines 222 to 224) and the content type \<open>ct\<close> (lines 227 to 229).
\<close>

definition libraryHeaders :: "'o Request \<Rightarrow> string \<Rightarrow> (string \<times> string) list" where
  "libraryHeaders r ct =
     (if username r \<noteq> [] \<or> password r \<noteq> []
      then [(''Authorization'', ''Basic '' @ basicAuth (username r) (password r))] else [])
     @ (if ct \<noteq> [] then [(''Content-Type'', ct)] else [])"

text \<open>
  Lines 256 to 278: the transport and the client. The builder comes back also with the
  error: its \<open>transport\<close> field is written before the proxy URL is parsed.
\<close>

definition selectClient :: "'o platform \<Rightarrow> 'o Request \<Rightarrow> error option \<times> 'o Request" where
  "selectClient P r0 =
     (let r1 = r0\<lparr>transport := Some DefaultTransport\<rparr> in
      case (if httpcli r1 = None \<and> proxyURL r1 \<noteq> [] then
              (case url_Parse P (proxyURL r1) of
                 Inl e \<Rightarrow> Inl (ProxyParseFailed e)
               | Inr proxy \<Rightarrow> Inr (r1\<lparr>transport := Some (ProxyTransport proxy)\<rparr>))
            else Inr r1) of
        Inl e \<Rightarrow> (Some e, r1)
      | Inr r2 \<Rightarrow>
          (if httpcli r2 = None then
             (let cli0 = \<lparr>cli_Transport = transport r2, cli_Timeout = defaultTimeout\<rparr>;
                  cli1 = (if 0 < timeout r2 then cli0\<lparr>cli_Timeout := timeout r2\<rparr> else cli0)
              in (None, r2\<lparr>httpcli := Some cli1\<rparr>))
           else (None, r2)))"

text \<open>Lines 280 to 305: the call of the client, and the log of the response.\<close>

definition send :: "'o platform \<Rightarrow> 'o Request \<Rightarrow> http_Client \<Rightarrow> http_Request \<Rightarrow> world
                    \<Rightarrow> (http_Response option \<times> error option) \<times> world" where
  "send P r cli req w0 =
     (let w1 = (if verbose r
                then w0\<lparr>logged := logged w0 @ [LogDispatching (URL_String P (req_URL req))]\<rparr>
                else w0);
          w2 = w1\<lparr>sent := sent w1 @ [(cli, req)]\<rparr>
      in case Client_Do P cli req of
           DoError e res \<Rightarrow>
             ((None, Some (DispatchFailed e)),
              (case res of
                 Some rs \<Rightarrow> w2\<lparr>closed := closed w2 @ [res_Body rs]\<rparr>
               | None \<Rightarrow> w2))
         | DoOk res \<Rightarrow>
             (if verbose r then
                (case ioutil_ReadAll P (res_Body res) of
                   Inl e \<Rightarrow> ((None, Some (ResponseReadFailed e)), w2)
                 | Inr resbody \<Rightarrow>
                     ((Some (res\<lparr>res_Body := NopCloser resbody\<rparr>), None),
                      w2\<lparr>logged := logged w2 @
                           [LogResponse (res_StatusCode res) (res_Status res) resbody]\<rparr>))
              else ((Some res, None), w2)))"

text \<open>
  \<open>Dispatch\<close>: a panic, or what it returns (the response and the error), the builder as
  it has left it, and the outside.
\<close>

definition Dispatch :: "'o platform \<Rightarrow> 'o Request \<Rightarrow> world
                        \<Rightarrow> go_panic + ((http_Response option \<times> error option) \<times> 'o Request \<times> world)" where
  "Dispatch P r w =
     (case validateMethod r of
        Some e \<Rightarrow> Inr ((None, Some e), r, w)
      | None \<Rightarrow>
          (case validatePathParams r of
             Inl p \<Rightarrow> Inl p
           | Inr (Some e, r1) \<Rightarrow> Inr ((None, Some e), r1, w)
           | Inr (None, r1) \<Rightarrow>
               (case resolveBody P r1 of
                  Inl e \<Rightarrow> Inr ((None, Some e), r1, w)
                | Inr (b, ct) \<Rightarrow>
                    (case buildRequest P r1 b ct of
                       Inl e \<Rightarrow> Inr ((None, Some e), r1, w)
                     | Inr req \<Rightarrow>
                         (case selectClient P r1 of
                            (Some e, r2) \<Rightarrow> Inr ((None, Some e), r2, w)
                          | (None, r2) \<Rightarrow>
                              (case httpcli r2 of
                                 None \<Rightarrow> Inl NilPointerDereference
                               | Some cli \<Rightarrow>
                                   (case send P r2 cli req w of
                                      (out, w') \<Rightarrow> Inr (out, r2, w'))))))))"

text \<open>
  \<open>DispatchScan\<close>: a panic, or the error it returns, the decoded target (when the
  decoding succeeded), the builder and the outside. The parameter \<open>response\<close> is an
  \<open>interface{}\<close>: \<open>None\<close> is the nil interface, the one value for which
  \<open>response == nil\<close> holds; \<open>Some v\<close> is any other value, a nil pointer of some type
  among them.
\<close>

definition DispatchScan :: "'o platform \<Rightarrow> 'o Request \<Rightarrow> 'o option \<Rightarrow> world
                            \<Rightarrow> go_panic + (error option \<times> 'o option \<times> 'o Request \<times> world)" where
  "DispatchScan P r response w =
     (case response of
        None \<Rightarrow> Inr (Some errorResponseStructIsNil, None, r, w)
      | Some target \<Rightarrow>
          (case Dispatch P r w of
             Inl p \<Rightarrow> Inl p
           | Inr ((res, Some e), r', w') \<Rightarrow>
               Inr (Some e, None, r',
                    (case res of
                       Some rs \<Rightarrow> w'\<lparr>closed := closed w' @ [res_Body rs]\<rparr>
                     | None \<Rightarrow> w'))
           | Inr ((None, None), r', w') \<Rightarrow> Inl NilPointerDereference
           | Inr ((Some rs, None), r', w') \<Rightarrow>
               (case json_Decode P (res_Body rs) target of
                  Inl e \<Rightarrow>
                    Inr (Some (DecodeFailed (res_StatusCode rs) e), None, r',
                         w'\<lparr>closed := closed w' @ [res_Body rs]\<rparr>)
                | Inr t \<Rightarrow>
                    Inr (None, Some t, r', w'\<lparr>closed := closed w' @ [res_Body rs]\<rparr>))))"

section \<open>A reference platform\<close>

text \<open>
  The collaborators as functions that run, to evaluate Dispatch on concrete builders:
  the query escaping of net/url (\<open>QueryEscape\<close>, \<open>QueryUnescape\<close>, \<open>Values.Encode\<close> with
  its keys sorted bytewise, \<open>ParseQuery\<close>), a URL parser that cuts the raw query at the
  first \<open>?\<close> and rejects a leading colon as the library does (its other failures, the
  fragment and semicolons in a query are left out), and a JSON codec for the two values of \<open>go_value\<close>. The network
  stays a parameter: what a client answers, and what reading a response body yields.
\<close>

definition isAlnum :: "char \<Rightarrow> bool" where
  "isAlnum c = (let n = (of_char c :: nat) in
     (48 \<le> n \<and> n \<le> 57) \<or> (65 \<le> n \<and> n \<le> 90) \<or> (97 \<le> n \<and> n \<le> 122))"

definition shouldEscape :: "char \<Rightarrow> bool" where
  "shouldEscape c = (\<not> isAlnum c \<and> c \<notin> set ''-_.~'')"

definition upperhex :: string where
  "upperhex = ''0123456789ABCDEF''"

definition url_QueryEscape :: "string \<Rightarrow> string" where
  "url_QueryEscape s =
     concat (map (\<lambda>c. if c = CHR '' '' then ''+''
                        else if shouldEscape c
                          then [CHR ''%'', upperhex ! (of_char c div 16), upperhex ! (of_char c mod 16)]
                        else [c]) s)"

definition unhex :: "char \<Rightarrow> nat option" where
  "unhex c = (let n = (of_char c :: nat) in
     if 48 \<le> n \<and> n \<le> 57 then Some (n - 48)
     else if 97 \<le> n \<and> n \<le> 102 then Some (n - 97 + 10)
     else if 65 \<le> n \<and> n \<le> 70 then Some (n - 65 + 10)
     else None)"

fun unescape :: "string \<Rightarrow> lib_error + string" where
  "unescape [] = Inr []"
| "unescape (c # cs) =
     (if c = CHR ''%'' then
        (case cs of
           a # b # rest \<Rightarrow>
             (case (unhex a, unhex b) of
                (Some x, Some y) \<Rightarrow>
                  (case unescape rest of
                     Inl e \<Rightarrow> Inl e
                   | Inr t \<Rightarrow> Inr (char_of (16 * x + y) # t))
              | _ \<Rightarrow> Inl ''invalid URL escape'')
         | _ \<Rightarrow> Inl ''invalid URL escape'')
      else
        (case unescape cs of
           Inl e \<Rightarrow> Inl e
         | Inr t \<Rightarrow> Inr ((if c = CHR ''+'' then CHR '' '' else c) # t)))"

fun string_less :: "string \<Rightarrow> string \<Rightarrow> bool" where
  "string_less s [] = False"
| "string_less [] (b # bs) = True"
| "string_less (a # as) (b # bs) =
     ((of_char a :: nat) < of_char b \<or> (a = b \<and> string_less as bs))"

fun insertKey :: "string \<times> string list \<Rightarrow> url_Values \<Rightarrow> url_Values" where
  "insertKey kv [] = [kv]"
| "insertKey kv (x # xs) =
     (if string_less (fst x) (fst kv) then x # insertKey kv xs else kv # x # xs)"

definition sortKeys :: "url_Values \<Rightarrow> url_Values" where
  "sortKeys q = foldr insertKey q []"

definition encodeValues :: "url_Values \<Rightarrow> string" where
  "encodeValues q =
     strings_Join
       (concat (map (\<lambda>(k, vs). map (\<lambda>v. url_QueryEscape k @ ''='' @ url_QueryEscape v) vs)
                    (sortKeys q)))
       ''&''"

definition parseURL :: "string \<Rightarrow> lib_error + url_URL" where
  "parseURL u =
     (if strings_HasPrefix u '':'' then Inl ''missing protocol scheme''
      else case strings_Index u ''?'' of
             None \<Rightarrow> Inr \<lparr>url_Rest = u, url_RawQuery = []\<rparr>
           | Some i \<Rightarrow> Inr \<lparr>url_Rest = take i u, url_RawQuery = drop (i + 1) u\<rparr>)"

definition parseQueryPiece :: "string \<Rightarrow> url_Values \<Rightarrow> url_Values" where
  "parseQueryPiece piece q =
     (if piece = [] then q
      else
        (let (k, v) = (case strings_Index piece ''='' of
                         None \<Rightarrow> (piece, [])
                       | Some i \<Rightarrow> (take i piece, drop (i + 1) piece))
         in case (unescape k, unescape v) of
              (Inr k', Inr v') \<Rightarrow> Values_Add q k' v'
            | _ \<Rightarrow> q))"

definition parseQuery :: "url_URL \<Rightarrow> url_Values" where
  "parseQuery u = fold parseQueryPiece (strings_Split (url_RawQuery u) ''&'') []"

definition urlString :: "url_URL \<Rightarrow> string" where
  "urlString u = url_Rest u @ (if url_RawQuery u = [] then [] else ''?'' @ url_RawQuery u)"

datatype go_value = GoString string | GoChan | GoNilPtr

text \<open>
  Values to encode and to decode into: a string, which JSON writes in double quotes (no
  character of it needing an escape); a channel, which \<open>json.Marshal\<close> rejects; and a nil
  pointer of some type, which encodes to \<open>null\<close>. As decoding targets the first two stand
  for pointers to a string and to a channel. Decoding reads one JSON string from the
  content. With a nil pointer as the target, \<open>Decode(&response)\<close> has nothing to follow
  and stores the value in the interface variable it was given the address of: the decoding
  succeeds and the nil pointer is what the caller still holds.
\<close>

definition marshal :: "go_value \<Rightarrow> lib_error + string" where
  "marshal v = (case v of
       GoString s \<Rightarrow> Inr (CHR 0x22 # s @ [CHR 0x22])
     | GoChan \<Rightarrow> Inl ''json: unsupported type: chan int''
     | GoNilPtr \<Rightarrow> Inr ''null'')"

definition decode :: "string \<Rightarrow> go_value \<Rightarrow> lib_error + go_value" where
  "decode content target =
     (case content of
        [] \<Rightarrow> Inl ''EOF''
      | c # cs \<Rightarrow>
          if c = CHR 0x22 \<and> cs \<noteq> [] \<and> last cs = CHR 0x22 then
            (case target of
               GoString old \<Rightarrow> Inr (GoString (butlast cs))
             | GoChan \<Rightarrow> Inl ''json: cannot unmarshal string into Go value of type chan int''
             | GoNilPtr \<Rightarrow> Inr GoNilPtr)
          else Inl ''invalid character'')"

definition ref_platform :: "(http_Client \<Rightarrow> http_Request \<Rightarrow> do_result) \<Rightarrow> (nat \<Rightarrow> lib_error + string)
                            \<Rightarrow> go_value platform" where
  "ref_platform net bodies =
     \<lparr>json_Marshal = marshal,
      Values_Encode = encodeValues,
      http_NewRequest = (\<lambda>m u. parseURL u),
      URL_Query = parseQuery,
      URL_String = urlString,
      url_QueryUnescape = unescape,
      url_Parse = parseURL,
      Client_Do = net,
      ioutil_ReadAll = (\<lambda>b. case b of NetBody n \<Rightarrow> bodies n | NopCloser s \<Rightarrow> Inr s),
      json_Decode = (\<lambda>b target. case b of
                       NetBody n \<Rightarrow> (case bodies n of Inl e \<Rightarrow> Inl e | Inr s \<Rightarrow> decode s target)
                     | NopCloser s \<Rightarrow> decode s target)\<rparr>"

text \<open>A server that answers every request with 200 and the body of handle 0.\<close>

definition ok_net :: "http_Client \<Rightarrow> http_Request \<Rightarrow> do_result" where
  "ok_net cli req = DoOk \<lparr>res_StatusCode = 200, res_Status = ''200 OK'', res_Body = NetBody 0\<rparr>"

text \<open>Response bodies: every handle empty, or every handle the JSON string \<open>"foo"\<close>.\<close>

definition quiet_bodies :: "nat \<Rightarrow> lib_error + string" where
  "quiet_bodies n = Inr []"

definition foo_bodies :: "nat \<Rightarrow> lib_error + string" where
  "foo_bodies n = Inr (CHR 0x22 # ''foo'' @ [CHR 0x22])"

definition empty_world :: world where
  "empty_world = \<lparr>sent = [], logged = [], closed = []\<rparr>"

section \<open>Splitting on the separator, counting the placeholder separator\<close>

lemma HasPrefix_colon: "strings_HasPrefix s pathParamIndicator = (\<exists>t. s = CHR '':'' # t)"
  by (cases s) (auto simp: strings_HasPrefix_def pathParamIndicator_def)

lemma Index_slash_Cons:
  "strings_Index (c # cs) urlSeparator =
     (if c = CHR ''/'' then Some 0 else map_option Suc (strings_Index cs urlSeparator))"
  by (simp add: strings_Index.simps strings_HasPrefix_def urlSeparator_def)

lemma Split_slash_Nil: "strings_Split [] urlSeparator = [[]]"
  by (simp add: strings_Split.simps urlSeparator_def)

lemma Split_slash_Cons:
  "strings_Split (c # cs) urlSeparator =
     (if c = CHR ''/'' then [] # strings_Split cs urlSeparator
      else (c # hd (strings_Split cs urlSeparator)) # tl (strings_Split cs urlSeparator))"
proof -
  have ne: "urlSeparator \<noteq> []" "length urlSeparator = 1" by (simp_all add: urlSeparator_def)
  show ?thesis
  proof (cases "c = CHR ''/''")
    case True
    then have "strings_Index (c # cs) urlSeparator = Some 0" by (simp add: Index_slash_Cons)
    then show ?thesis using True ne
      by (subst strings_Split.simps) simp
  next
    case False
    show ?thesis
    proof (cases "strings_Index cs urlSeparator")
      case None
      then have "strings_Index (c # cs) urlSeparator = None" using False by (simp add: Index_slash_Cons)
      then have "strings_Split (c # cs) urlSeparator = [c # cs]" using ne
        by (subst strings_Split.simps) simp
      moreover have "strings_Split cs urlSeparator = [cs]" using None ne
        by (subst strings_Split.simps) simp
      ultimately show ?thesis using False by simp
    next
      case (Some m)
      then have "strings_Index (c # cs) urlSeparator = Some (Suc m)" using False by (simp add: Index_slash_Cons)
      then have "strings_Split (c # cs) urlSeparator = (c # take m cs) # strings_Split (drop (m + 1) cs) urlSeparator" using ne
        by (subst strings_Split.simps) simp
      moreover have "strings_Split cs urlSeparator = take m cs # strings_Split (drop (m + 1) cs) urlSeparator" using Some ne
        by (subst strings_Split.simps) simp
      ultimately show ?thesis using False by simp
    qed
  qed
qed

lemma Index_sep_Cons:
  "strings_Index (c # cs) urlPathParamSeparator =
     (if c = CHR ''/'' \<and> (\<exists>t. cs = CHR '':'' # t) then Some 0
      else map_option Suc (strings_Index cs urlPathParamSeparator))"
  by (cases cs) (auto simp add: strings_Index.simps strings_HasPrefix_def urlPathParamSeparator_def)

lemma Count_sep_Nil: "strings_Count [] urlPathParamSeparator = 0"
  by (simp add: strings_Count.simps urlPathParamSeparator_def)

lemma Count_None: "sub \<noteq> [] \<Longrightarrow> strings_Index s sub = None \<Longrightarrow> strings_Count s sub = 0"
  by (subst strings_Count.simps) simp

lemma Count_Some:
  "sub \<noteq> [] \<Longrightarrow> strings_Index s sub = Some i \<Longrightarrow>
   strings_Count s sub = 1 + strings_Count (drop (i + length sub) s) sub"
  by (subst strings_Count.simps) simp

lemma Count_sep_Cons:
  "strings_Count (c # cs) urlPathParamSeparator =
     (if c = CHR ''/'' \<and> (\<exists>t. cs = CHR '':'' # t) then 1 + strings_Count (tl cs) urlPathParamSeparator
      else strings_Count cs urlPathParamSeparator)"
proof -
  have ne: "urlPathParamSeparator \<noteq> []" and len: "length urlPathParamSeparator = 2"
    by (simp_all add: urlPathParamSeparator_def)
  show ?thesis
  proof (cases "c = CHR ''/'' \<and> (\<exists>t. cs = CHR '':'' # t)")
    case True
    then have "strings_Index (c # cs) urlPathParamSeparator = Some 0"
      by (subst Index_sep_Cons) simp
    from Count_Some [OF ne this] True show ?thesis
      by (auto simp: len)
  next
    case False
    then have I: "strings_Index (c # cs) urlPathParamSeparator = map_option Suc (strings_Index cs urlPathParamSeparator)"
      by (subst Index_sep_Cons) auto
    show ?thesis
    proof (cases "strings_Index cs urlPathParamSeparator")
      case None
      with I have "strings_Index (c # cs) urlPathParamSeparator = None" by simp
      from Count_None [OF ne this] Count_None [OF ne None] False show ?thesis by auto
    next
      case (Some m)
      with I have "strings_Index (c # cs) urlPathParamSeparator = Some (Suc m)" by simp
      from Count_Some [OF ne this] Count_Some [OF ne Some] False show ?thesis by (auto simp: len)
    qed
  qed
qed

lemma Split_slash_ne: "strings_Split u urlSeparator \<noteq> []"
  by (cases u) (simp_all add: Split_slash_Nil Split_slash_Cons)

lemma hd_Split_slash:
  "strings_HasPrefix (hd (strings_Split u urlSeparator)) pathParamIndicator
     = strings_HasPrefix u pathParamIndicator"
  by (cases u) (auto simp add: Split_slash_Nil Split_slash_Cons HasPrefix_colon)

lemma placeholders_Split:
  "placeholders (strings_Split u urlSeparator) =
     strings_Count u urlPathParamSeparator + (if strings_HasPrefix u pathParamIndicator then 1 else 0)"
proof (induction u)
  case Nil
  show ?case by (simp add: Split_slash_Nil Count_sep_Nil placeholders_def HasPrefix_colon)
next
  case (Cons c cs)
  obtain x xs where sp: "strings_Split cs urlSeparator = x # xs"
    using Split_slash_ne [of cs] by (cases "strings_Split cs urlSeparator") auto
  have hx: "strings_HasPrefix x pathParamIndicator = strings_HasPrefix cs pathParamIndicator"
    using hd_Split_slash [of cs] sp by simp
  show ?case
  proof (cases "c = CHR ''/''")
    case True
    show ?thesis
    proof (cases "\<exists>t. cs = CHR '':'' # t")
      case True
      then obtain t where t: "cs = CHR '':'' # t" by blast
      have "strings_Count cs urlPathParamSeparator = strings_Count t urlPathParamSeparator"
        unfolding t by (subst Count_sep_Cons) simp
      with Cons.IH \<open>c = CHR ''/''\<close> t show ?thesis
        by (simp add: Split_slash_Cons Count_sep_Cons placeholders_def HasPrefix_colon)
    next
      case False
      with Cons.IH \<open>c = CHR ''/''\<close> show ?thesis
        by (simp add: Split_slash_Cons Count_sep_Cons placeholders_def HasPrefix_colon)
    qed
  next
    case False
    with Cons.IH sp hx show ?thesis
      by (auto simp add: Split_slash_Cons Count_sep_Cons placeholders_def HasPrefix_colon)
  qed
qed

section \<open>The substitution loop\<close>

lemma placeholders_Nil: "placeholders [] = 0"
  by (simp add: placeholders_def)

lemma placeholders_Cons:
  "placeholders (s # splits) =
     (if strings_HasPrefix s pathParamIndicator then Suc (placeholders splits) else placeholders splits)"
  by (simp add: placeholders_def)

lemma setPathParams_ok:
  "idx + placeholders splits \<le> length params \<Longrightarrow>
   \<exists>splits'. setPathParams splits params idx = Inr (splits', idx + placeholders splits)
     \<and> length splits' = length splits
     \<and> (\<forall>i<length splits. splits' ! i =
           (if strings_HasPrefix (splits ! i) pathParamIndicator
            then params ! (idx + placeholders (take i splits)) else splits ! i))"
proof (induction splits arbitrary: idx)
  case Nil
  show ?case by (simp add: placeholders_Nil)
next
  case (Cons s splits)
  show ?case
  proof (cases "strings_HasPrefix s pathParamIndicator")
    case True
    with Cons.prems have b: "Suc idx + placeholders splits \<le> length params"
      by (simp add: placeholders_Cons)
    from Cons.IH [OF b] obtain splits' where
      s: "setPathParams splits params (Suc idx) = Inr (splits', Suc idx + placeholders splits)"
      and l: "length splits' = length splits"
      and v: "\<forall>i<length splits. splits' ! i =
           (if strings_HasPrefix (splits ! i) pathParamIndicator
            then params ! (Suc idx + placeholders (take i splits)) else splits ! i)"
      by blast
    from b have lt: "idx < length params" by simp
    have "setPathParams (s # splits) params idx = Inr (params ! idx # splits', idx + placeholders (s # splits))"
      using True lt s by (simp add: placeholders_Cons)
    moreover have "\<forall>i<length (s # splits). (params ! idx # splits') ! i =
           (if strings_HasPrefix ((s # splits) ! i) pathParamIndicator
            then params ! (idx + placeholders (take i (s # splits))) else (s # splits) ! i)"
    proof (intro allI impI)
      fix i assume "i < length (s # splits)"
      then show "(params ! idx # splits') ! i =
           (if strings_HasPrefix ((s # splits) ! i) pathParamIndicator
            then params ! (idx + placeholders (take i (s # splits))) else (s # splits) ! i)"
        using True v by (cases i) (simp_all add: placeholders_Nil placeholders_Cons)
    qed
    ultimately show ?thesis using l by simp
  next
    case False
    with Cons.prems have b: "idx + placeholders splits \<le> length params"
      by (simp add: placeholders_Cons)
    from Cons.IH [OF b] obtain splits' where
      s: "setPathParams splits params idx = Inr (splits', idx + placeholders splits)"
      and l: "length splits' = length splits"
      and v: "\<forall>i<length splits. splits' ! i =
           (if strings_HasPrefix (splits ! i) pathParamIndicator
            then params ! (idx + placeholders (take i splits)) else splits ! i)"
      by blast
    have "setPathParams (s # splits) params idx = Inr (s # splits', idx + placeholders (s # splits))"
      using False s by (simp add: placeholders_Cons)
    moreover have "\<forall>i<length (s # splits). (s # splits') ! i =
           (if strings_HasPrefix ((s # splits) ! i) pathParamIndicator
            then params ! (idx + placeholders (take i (s # splits))) else (s # splits) ! i)"
    proof (intro allI impI)
      fix i assume "i < length (s # splits)"
      then show "(s # splits') ! i =
           (if strings_HasPrefix ((s # splits) ! i) pathParamIndicator
            then params ! (idx + placeholders (take i (s # splits))) else (s # splits) ! i)"
        using False v by (cases i) (simp_all add: placeholders_Nil placeholders_Cons)
    qed
    ultimately show ?thesis using l by simp
  qed
qed

lemma setPathParams_panic:
  "length params < idx + placeholders splits \<Longrightarrow> idx \<le> length params \<Longrightarrow>
   setPathParams splits params idx = Inl (IndexOutOfRange (length params) (length params))"
proof (induction splits arbitrary: idx)
  case Nil
  then show ?case by (simp add: placeholders_Nil)
next
  case (Cons s splits)
  show ?case
  proof (cases "strings_HasPrefix s pathParamIndicator")
    case True
    show ?thesis
    proof (cases "idx < length params")
      case lt: True
      with Cons.prems True have "length params < Suc idx + placeholders splits" "Suc idx \<le> length params"
        by (simp_all add: placeholders_Cons)
      from Cons.IH [OF this] True lt show ?thesis by simp
    next
      case False
      with Cons.prems have "idx = length params" by simp
      with True show ?thesis by simp
    qed
  next
    case False
    with Cons.prems have "length params < idx + placeholders splits" by (simp add: placeholders_Cons)
    from Cons.IH [OF this Cons.prems(2)] False show ?thesis by simp
  qed
qed

lemma Index_None_Count: "sub \<noteq> [] \<Longrightarrow> (strings_Index s sub = None) = (strings_Count s sub = 0)"
  by (cases "strings_Index s sub") (simp_all add: Count_None Count_Some)

lemma Contains_Count:
  "strings_Contains u urlPathParamSeparator = (0 < strings_Count u urlPathParamSeparator)"
  using Index_None_Count [of urlPathParamSeparator u]
  by (simp add: strings_Contains_def urlPathParamSeparator_def)

section \<open>Path-parameter validation\<close>

text \<open>
  The outcome of \<open>validatePathParams\<close> in every case. The pieces that start with the
  indicator are one per occurrence of the placeholder separator, and one more when the
  URL itself starts with the indicator: that piece is replaced but was not counted, so the
  loop reads one value too many.
\<close>

lemma validatePathParams_cases:
  "validatePathParams r =
     (if \<not> strings_Contains (url r) urlPathParamSeparator then Inr (None, r)
      else if length (pathParams r) = 0 then Inr (Some errNoPathParamValueSet, r)
      else if strings_Count (url r) urlPathParamSeparator \<noteq> length (pathParams r)
        then Inr (Some errPathParamPassedIncorrect, r)
      else if strings_HasPrefix (url r) pathParamIndicator
        then Inl (IndexOutOfRange (length (pathParams r)) (length (pathParams r)))
      else Inr (None, r\<lparr>url := strings_Join
              (fst (projr (setPathParams (strings_Split (url r) urlSeparator) (pathParams r) 0)))
              urlSeparator\<rparr>))"
proof -
  let ?splits = "strings_Split (url r) urlSeparator"
  let ?n = "length (pathParams r)"
  have pl: "placeholders ?splits = strings_Count (url r) urlPathParamSeparator
              + (if strings_HasPrefix (url r) pathParamIndicator then 1 else 0)"
    by (rule placeholders_Split)
  show ?thesis
  proof (cases "strings_Contains (url r) urlPathParamSeparator \<and> ?n \<noteq> 0
                  \<and> strings_Count (url r) urlPathParamSeparator = ?n")
    case False
    then show ?thesis by (auto simp: validatePathParams_def Let_def)
  next
    case True
    show ?thesis
    proof (cases "strings_HasPrefix (url r) pathParamIndicator")
      case hp: True
      with pl True have "?n < 0 + placeholders ?splits" by simp
      from setPathParams_panic [OF this] True hp show ?thesis
        by (simp add: validatePathParams_def Let_def)
    next
      case hp: False
      with pl True have "0 + placeholders ?splits \<le> ?n" by simp
      from setPathParams_ok [OF this] obtain splits' where
        "setPathParams ?splits (pathParams r) 0 = Inr (splits', 0 + placeholders ?splits)"
        by blast
      with pl True hp show ?thesis
        by (simp add: validatePathParams_def Let_def)
    qed
  qed
qed

lemma validatePathParams_frame:
  "validatePathParams r = Inr (e, r1) \<Longrightarrow> r1 = r\<lparr>url := url r1\<rparr>"
  by (auto simp: validatePathParams_def Let_def split: if_splits sum.splits prod.splits)

lemma validatePathParams_errors:
  "validatePathParams r = Inr (Some e, r1) \<Longrightarrow>
     r1 = r \<and> (e = errNoPathParamValueSet \<or> e = errPathParamPassedIncorrect)"
  by (simp add: validatePathParams_cases split: if_splits)

section \<open>The phases of Dispatch\<close>

lemma resolveBody_errors:
  "resolveBody P r = Inl e \<Longrightarrow> \<exists>x. e = SerializationFailed x"
  by (auto simp: resolveBody_def split: option.splits sum.splits)

lemma fold_Header_Add:
  "fold (\<lambda>(k, v) q. Header_Add q k v) hs req = req\<lparr>req_Header := req_Header req @ hs\<rparr>"
  by (induction hs arbitrary: req) (auto simp: Header_Add_def)

lemma fold_Header_Add':
  "fold (\<lambda>(k, v) q. q\<lparr>req_Header := req_Header q @ [(k, v)]\<rparr>) hs req
     = req\<lparr>req_Header := req_Header req @ hs\<rparr>"
  by (induction hs arbitrary: req) auto

lemma setQueryParams_errors:
  "setQueryParams P r req = Inl e \<Longrightarrow> \<exists>x. e = QueryUnescapeFailed x"
  by (auto simp: setQueryParams_def Let_def split: if_splits sum.splits)

lemma setQueryParams_frame:
  "setQueryParams P r req = Inr req' \<Longrightarrow>
     req_Method req' = req_Method req \<and> req_Header req' = req_Header req
     \<and> req_Body req' = req_Body req \<and> url_Rest (req_URL req') = url_Rest (req_URL req)"
  by (auto simp: setQueryParams_def Let_def split: if_splits sum.splits)

lemma buildRequest_errors:
  "buildRequest P r b ct = Inl e \<Longrightarrow>
     (\<exists>x. e = RequestConstructionFailed x) \<or> (\<exists>x. e = QueryUnescapeFailed x)"
  by (auto simp: buildRequest_def Let_def split: sum.splits dest: setQueryParams_errors)

lemma buildRequest_unfold:
  "http_NewRequest P (method r) (url r) = Inr u \<Longrightarrow>
   buildRequest P r b ct =
     setQueryParams P r \<lparr>req_Method = method r, req_URL = u,
                          req_Header = libraryHeaders r ct @ headers r, req_Body = b\<rparr>"
  by (simp add: buildRequest_def Let_def fold_Header_Add' Header_Add_def libraryHeaders_def)

lemma buildRequest_shape:
  assumes "buildRequest P r b ct = Inr req"
  shows "req_Method req = method r \<and> req_Body req = b
         \<and> req_Header req = libraryHeaders r ct @ headers r"
proof (cases "http_NewRequest P (method r) (url r)")
  case (Inl e)
  with assms show ?thesis by (simp add: buildRequest_def)
next
  case (Inr u)
  from assms buildRequest_unfold [OF Inr, of b ct]
  have "setQueryParams P r \<lparr>req_Method = method r, req_URL = u,
                          req_Header = libraryHeaders r ct @ headers r, req_Body = b\<rparr> = Inr req"
    by simp
  from setQueryParams_frame [OF this] show ?thesis by simp
qed

lemma selectClient_errors:
  "selectClient P r = (Some e, r2) \<Longrightarrow> \<exists>x. e = ProxyParseFailed x"
  by (auto simp: selectClient_def Let_def split: if_splits sum.splits)

lemma send_sent:
  "send P r cli req w = (out, w') \<Longrightarrow> sent w' = sent w @ [(cli, req)]"
  by (auto simp: send_def Let_def split: do_result.splits option.splits if_splits sum.splits)

lemma send_errors:
  "send P r cli req w = ((res, Some e), w') \<Longrightarrow>
     res = None \<and> ((\<exists>x. e = DispatchFailed x) \<or> (\<exists>x. e = ResponseReadFailed x))"
  by (auto simp: send_def Let_def split: do_result.splits option.splits if_splits sum.splits)

lemma Dispatch_method_error:
  "validateMethod r = Some e \<Longrightarrow> Dispatch P r w = Inr ((None, Some e), r, w)"
  by (simp add: Dispatch_def)

lemma Dispatch_body_error:
  "validateMethod r = None \<Longrightarrow> validatePathParams r = Inr (None, r1) \<Longrightarrow>
   resolveBody P r1 = Inl e \<Longrightarrow> Dispatch P r w = Inr ((None, Some e), r1, w)"
  by (simp add: Dispatch_def)

lemma Dispatch_build_error:
  "validateMethod r = None \<Longrightarrow> validatePathParams r = Inr (None, r1) \<Longrightarrow>
   resolveBody P r1 = Inr (b, ct) \<Longrightarrow> buildRequest P r1 b ct = Inl e \<Longrightarrow>
   Dispatch P r w = Inr ((None, Some e), r1, w)"
  by (simp add: Dispatch_def)


lemma Dispatch_send:
  "validateMethod r = None \<Longrightarrow> validatePathParams r = Inr (None, r1) \<Longrightarrow>
   resolveBody P r1 = Inr (b, ct) \<Longrightarrow> buildRequest P r1 b ct = Inr req \<Longrightarrow>
   selectClient P r1 = (None, r2) \<Longrightarrow> httpcli r2 = Some cli \<Longrightarrow>
   Dispatch P r w = Inr (fst (send P r2 cli req w), r2, snd (send P r2 cli req w))"
  by (simp add: Dispatch_def split: prod.splits)

lemma selectClient_client:
  "selectClient P r = (None, r2) \<Longrightarrow> \<exists>cli. httpcli r2 = Some cli"
  by (auto simp: selectClient_def Let_def split: if_splits sum.splits)

text \<open>Every way Dispatch can return.\<close>

lemma Dispatch_cases:
  assumes "Dispatch P r w = Inr (out, r', w')"
  shows "(\<exists>e. validateMethod r = Some e \<and> out = (None, Some e) \<and> r' = r \<and> w' = w)
       \<or> (validateMethod r = None \<and>
           ((\<exists>e. validatePathParams r = Inr (Some e, r') \<and> out = (None, Some e) \<and> w' = w)
          \<or> (\<exists>r1. validatePathParams r = Inr (None, r1) \<and>
               ((\<exists>e. resolveBody P r1 = Inl e \<and> out = (None, Some e) \<and> r' = r1 \<and> w' = w)
              \<or> (\<exists>b ct. resolveBody P r1 = Inr (b, ct) \<and>
                   ((\<exists>e. buildRequest P r1 b ct = Inl e \<and> out = (None, Some e) \<and> r' = r1 \<and> w' = w)
                  \<or> (\<exists>req. buildRequest P r1 b ct = Inr req \<and>
                       ((\<exists>e. selectClient P r1 = (Some e, r') \<and> out = (None, Some e) \<and> w' = w)
                      \<or> (\<exists>cli. selectClient P r1 = (None, r') \<and> httpcli r' = Some cli
                            \<and> send P r' cli req w = (out, w'))))))))))"
  using assms
  by (auto simp: Dispatch_def split: option.splits sum.splits prod.splits)

lemma Dispatch_path_error:
  "validateMethod r = None \<Longrightarrow> validatePathParams r = Inr (Some e, r1) \<Longrightarrow>
   Dispatch P r w = Inr ((None, Some e), r1, w)"
  by (simp add: Dispatch_def)

lemma Dispatch_later_errors:
  assumes m: "validateMethod r = None"
      and d: "Dispatch P r w = Inr ((res, Some e), r', w')"
  shows "e \<noteq> errorMethodIsEmpty \<and> e \<noteq> errMethodUnknown"
  using Dispatch_cases [OF d] m
  by (auto dest: validatePathParams_errors resolveBody_errors buildRequest_errors
        selectClient_errors send_errors)

lemma Dispatch_error_no_response:
  assumes d: "Dispatch P r w = Inr ((res, Some e), r', w')"
  shows "res = None"
  using Dispatch_cases [OF d]
  by (auto dest: send_errors)

lemma validateMethod_cases:
  "validateMethod r =
     (if method r = [] then Some errorMethodIsEmpty
      else if method r \<in> set http_Methods then None else Some errMethodUnknown)"
  by (simp add: validateMethod_def)

lemma resolveBody_url [simp]: "resolveBody P (r\<lparr>url := u\<rparr>) = resolveBody P r"
  by (simp add: resolveBody_def split: option.splits)

lemma Dispatch_sent:
  assumes d: "Dispatch P r w = Inr (out, r', w')" and s: "sent w' = sent w @ [(cli, req)]"
  shows "\<exists>r1 b ct. validateMethod r = None \<and> validatePathParams r = Inr (None, r1)
           \<and> resolveBody P r1 = Inr (b, ct) \<and> buildRequest P r1 b ct = Inr req
           \<and> selectClient P r1 = (None, r') \<and> httpcli r' = Some cli
           \<and> send P r' cli req w = (out, w')"
proof -
  have same: "sent w' \<noteq> sent w" using s by simp
  from Dispatch_cases [OF d] same obtain r1 b ct req0 cli0 where
    f: "validateMethod r = None" "validatePathParams r = Inr (None, r1)"
       "resolveBody P r1 = Inr (b, ct)" "buildRequest P r1 b ct = Inr req0"
       "selectClient P r1 = (None, r')" "httpcli r' = Some cli0"
       "send P r' cli0 req0 w = (out, w')"
    by auto
  from send_sent [OF f(7)] s have "cli0 = cli" "req0 = req" by simp_all
  with f show ?thesis by blast
qed

lemma selectClient_supplied:
  "httpcli r = Some c \<Longrightarrow> selectClient P r = (None, r\<lparr>transport := Some DefaultTransport\<rparr>)"
  by (simp add: selectClient_def Let_def)

lemma selectClient_built:
  "httpcli r = None \<Longrightarrow>
   selectClient P r =
     (if proxyURL r = [] then
        (None, r\<lparr>transport := Some DefaultTransport,
                 httpcli := Some \<lparr>cli_Transport = Some DefaultTransport,
                                  cli_Timeout = (if 0 < timeout r then timeout r else defaultTimeout)\<rparr>\<rparr>)
      else case url_Parse P (proxyURL r) of
             Inl e \<Rightarrow> (Some (ProxyParseFailed e), r\<lparr>transport := Some DefaultTransport\<rparr>)
           | Inr proxy \<Rightarrow>
               (None, r\<lparr>transport := Some (ProxyTransport proxy),
                        httpcli := Some \<lparr>cli_Transport = Some (ProxyTransport proxy),
                                         cli_Timeout = (if 0 < timeout r then timeout r else defaultTimeout)\<rparr>\<rparr>))"
  by (simp add: selectClient_def Let_def split: sum.splits)

lemma setQueryParams_url [simp]: "setQueryParams P (r\<lparr>url := u\<rparr>) req = setQueryParams P r req"
  by (simp add: setQueryParams_def)

text \<open>
  When the collaborators of the later phases let it through, Dispatch does hand a request
  to a client: the request is built once \<open>http.NewRequest\<close> accepts the URL and the
  query, if it is to be unescaped, unescapes.
\<close>

lemma buildRequest_succeeds:
  assumes nr: "http_NewRequest P (method r) (url r) = Inr u"
      and qok: "queryParams r = [] \<or> \<not> unescapeQueryParams r
                \<or> (\<exists>d. url_QueryUnescape P (Values_Encode P
                       (fold (\<lambda>(k, v) q. Values_Add q k v) (queryParams r) (URL_Query P u))) = Inr d)"
  shows "\<exists>req. buildRequest P r b ct = Inr req"
  using qok
  by (auto simp add: buildRequest_unfold [OF nr] setQueryParams_def Let_def)

lemma Dispatch_sends:
  assumes m: "validateMethod r = None" and v: "validatePathParams r = Inr (None, r1)"
      and rb: "resolveBody P r1 = Inr (b, ct)"
      and br: "buildRequest P r1 b ct = Inr req"
      and sc: "selectClient P r1 = (None, r2)" and h: "httpcli r2 = Some cli"
  shows "\<exists>out w'. Dispatch P r w = Inr (out, r2, w') \<and> sent w' = sent w @ [(cli, req)]"
proof -
  obtain out w' where s: "send P r2 cli req w = (out, w')" by (cases "send P r2 cli req w")
  from Dispatch_send [OF m v rb br sc h, of w] s
  have "Dispatch P r w = Inr (out, r2, w')" by simp
  with send_sent [OF s] show ?thesis by blast
qed

lemma Dispatch_goes_out:
  assumes m: "validateMethod r = None" and v: "validatePathParams r = Inr (None, r1)"
      and rb: "resolveBody P r1 = Inr (b, ct)"
      and nr: "http_NewRequest P (method r1) (url r1) = Inr u"
      and qok: "queryParams r = [] \<or> \<not> unescapeQueryParams r
                \<or> (\<exists>d. url_QueryUnescape P (Values_Encode P
                       (fold (\<lambda>(k, v) q. Values_Add q k v) (queryParams r) (URL_Query P u))) = Inr d)"
      and sc: "selectClient P r1 = (None, r2)"
  shows "\<exists>out w' cli req. Dispatch P r w = Inr (out, r2, w') \<and> sent w' = sent w @ [(cli, req)]
           \<and> httpcli r2 = Some cli \<and> req_Method req = method r \<and> req_Body req = b
           \<and> req_Header req = libraryHeaders r ct @ headers r"
proof -
  from validatePathParams_frame [OF v] have r1: "r1 = r\<lparr>url := url r1\<rparr>" .
  have f: "queryParams r1 = queryParams r" "unescapeQueryParams r1 = unescapeQueryParams r"
    "method r1 = method r" "headers r1 = headers r" "libraryHeaders r1 ct = libraryHeaders r ct"
    by (subst r1, simp add: libraryHeaders_def)+
  from qok f have qok1: "queryParams r1 = [] \<or> \<not> unescapeQueryParams r1
                \<or> (\<exists>d. url_QueryUnescape P (Values_Encode P
                       (fold (\<lambda>(k, v) q. Values_Add q k v) (queryParams r1) (URL_Query P u))) = Inr d)"
    by simp
  from buildRequest_succeeds [OF nr qok1, of b ct] obtain req where
    br: "buildRequest P r1 b ct = Inr req" by blast
  from selectClient_client [OF sc] obtain cli where h: "httpcli r2 = Some cli" by blast
  from Dispatch_sends [OF m v rb br sc h, of w] obtain out w' where
    "Dispatch P r w = Inr (out, r2, w')" "sent w' = sent w @ [(cli, req)]" by blast
  with buildRequest_shape [OF br] f h show ?thesis by auto
qed

section \<open>Evaluating the setters\<close>

lemmas setters = New_def HTTPClient_def ProxyURL_def PathParams_def QueryParam_def Header_def
  BodyStruct_def BodyValues_def Body_def Timeout_def UnescapeQueryParams_def Verbose_def BasicAuth_def

section \<open>The claims\<close>

text \<open>
  Claim C1 says that, for every URL that contains \<open>/:\<close>, Dispatch with as many values as
  placeholders substitutes them and gets past path validation. For \<open>:team/users/:user\<close>
  with the one value \<open>bar\<close> (one occurrence of \<open>/:\<close>), Dispatch panics, whatever the
  collaborators do.
\<close>

theorem C1_dispatch_panics:
  "Dispatch P (PathParams [''bar''] (New ''GET'' '':team/users/:user'')) w
     = Inl (IndexOutOfRange 1 1)"
proof -
  have a: "strings_Contains '':team/users/:user'' urlPathParamSeparator" by code_simp
  have b: "strings_Count '':team/users/:user'' urlPathParamSeparator = 1" by code_simp
  have c: "setPathParams (strings_Split '':team/users/:user'' urlSeparator) [''bar''] 0
             = Inl (IndexOutOfRange 1 1)"
    by code_simp
  have m: "validateMethod (PathParams [''bar''] (New ''GET'' '':team/users/:user'')) = None"
    by (simp add: validateMethod_def PathParams_def New_def http_Methods_def)
  have v: "validatePathParams (PathParams [''bar''] (New ''GET'' '':team/users/:user''))
             = Inl (IndexOutOfRange 1 1)"
    by (simp add: validatePathParams_def PathParams_def New_def a b c)
  show ?thesis
    by (simp add: Dispatch_def m v)
qed

text \<open>
  What claim C1 says does hold for every URL that contains \<open>/:\<close> and does not itself
  start with \<open>:\<close>. With as many values as occurrences of \<open>/:\<close>, validation succeeds
  and writes the rejoined pieces into \<open>url\<close>: as many pieces as the split gave, a piece
  that starts with \<open>:\<close> replaced by the value whose index is the number of such pieces
  before it, every other piece kept. With no value Dispatch returns
  \<open>errNoPathParamValueSet\<close>, with any other number of values
  \<open>errPathParamPassedIncorrect\<close>, the builder and the outside untouched, whatever the
  collaborators are.
\<close>

theorem path_validation_without_leading_placeholder:
  assumes c: "strings_Contains (url r) urlPathParamSeparator"
      and h: "\<not> strings_HasPrefix (url r) pathParamIndicator"
      and m: "validateMethod r = None"
  shows "(length (pathParams r) = strings_Count (url r) urlPathParamSeparator \<longrightarrow>
           (\<exists>splits'. validatePathParams r = Inr (None, r\<lparr>url := strings_Join splits' urlSeparator\<rparr>)
              \<and> length splits' = length (strings_Split (url r) urlSeparator)
              \<and> (\<forall>i<length splits'. splits' ! i =
                   (if strings_HasPrefix (strings_Split (url r) urlSeparator ! i) pathParamIndicator
                    then pathParams r ! placeholders (take i (strings_Split (url r) urlSeparator))
                    else strings_Split (url r) urlSeparator ! i))))
       \<and> (length (pathParams r) = 0 \<longrightarrow>
            Dispatch P r w = Inr ((None, Some errNoPathParamValueSet), r, w))
       \<and> (0 < length (pathParams r)
            \<and> length (pathParams r) \<noteq> strings_Count (url r) urlPathParamSeparator \<longrightarrow>
            Dispatch P r w = Inr ((None, Some errPathParamPassedIncorrect), r, w))"
proof (intro conjI impI)
  let ?splits = "strings_Split (url r) urlSeparator"
  assume n: "length (pathParams r) = strings_Count (url r) urlPathParamSeparator"
  with c have pos: "length (pathParams r) \<noteq> 0" by (simp add: Contains_Count)
  from h n have "0 + placeholders ?splits \<le> length (pathParams r)"
    by (simp add: placeholders_Split)
  from setPathParams_ok [OF this] obtain splits' where
    s: "setPathParams ?splits (pathParams r) 0 = Inr (splits', 0 + placeholders ?splits)"
    and l: "length splits' = length ?splits"
    and v: "\<forall>i<length ?splits. splits' ! i =
           (if strings_HasPrefix (?splits ! i) pathParamIndicator
            then pathParams r ! (0 + placeholders (take i ?splits)) else ?splits ! i)"
    by blast
  have "validatePathParams r = Inr (None, r\<lparr>url := strings_Join splits' urlSeparator\<rparr>)"
    using c pos n h s by (simp add: validatePathParams_def Let_def placeholders_Split)
  with l v show "\<exists>splits'. validatePathParams r = Inr (None, r\<lparr>url := strings_Join splits' urlSeparator\<rparr>)
              \<and> length splits' = length ?splits
              \<and> (\<forall>i<length splits'. splits' ! i =
                   (if strings_HasPrefix (?splits ! i) pathParamIndicator
                    then pathParams r ! placeholders (take i ?splits)
                    else ?splits ! i))"
    by auto
next
  assume "length (pathParams r) = 0"
  with c have "validatePathParams r = Inr (Some errNoPathParamValueSet, r)"
    by (simp add: validatePathParams_def)
  from Dispatch_path_error [OF m this]
  show "Dispatch P r w = Inr ((None, Some errNoPathParamValueSet), r, w)" .
next
  assume "0 < length (pathParams r)
            \<and> length (pathParams r) \<noteq> strings_Count (url r) urlPathParamSeparator"
  with c have "validatePathParams r = Inr (Some errPathParamPassedIncorrect, r)"
    by (auto simp add: validatePathParams_def Let_def)
  from Dispatch_path_error [OF m this]
  show "Dispatch P r w = Inr ((None, Some errPathParamPassedIncorrect), r, w)" .
qed

theorem path_validation_without_leading_placeholder_witness:
  "strings_Contains (url (PathParams [''bar'', ''ghazni''] (New ''GET'' ''http://h/:team/users/:user'' :: go_value Request))) urlPathParamSeparator
   \<and> \<not> strings_HasPrefix (url (PathParams [''bar'', ''ghazni''] (New ''GET'' ''http://h/:team/users/:user'' :: go_value Request))) pathParamIndicator
   \<and> validateMethod (PathParams [''bar'', ''ghazni''] (New ''GET'' ''http://h/:team/users/:user'' :: go_value Request)) = None
   \<and> length (pathParams (PathParams [''bar'', ''ghazni''] (New ''GET'' ''http://h/:team/users/:user'' :: go_value Request)))
       = strings_Count ''http://h/:team/users/:user'' urlPathParamSeparator
   \<and> (\<exists>splits'. validatePathParams (PathParams [''bar'', ''ghazni''] (New ''GET'' ''http://h/:team/users/:user'' :: go_value Request))
         = Inr (None, (PathParams [''bar'', ''ghazni''] (New ''GET'' ''http://h/:team/users/:user''))
                        \<lparr>url := strings_Join splits' urlSeparator\<rparr>)
        \<and> length splits' = 6)
   \<and> validatePathParams (PathParams [''bar'', ''ghazni''] (New ''GET'' ''http://h/:team/users/:user'' :: go_value Request))
         = Inr (None, (PathParams [''bar'', ''ghazni''] (New ''GET'' ''http://h/:team/users/:user''))
                        \<lparr>url := ''http://h/bar/users/ghazni''\<rparr>)"
proof -
  let ?r = "PathParams [''bar'', ''ghazni''] (New ''GET'' ''http://h/:team/users/:user'' :: go_value Request)"
  have c: "strings_Contains (url ?r) urlPathParamSeparator" by code_simp
  have h: "\<not> strings_HasPrefix (url ?r) pathParamIndicator" by code_simp
  have m: "validateMethod ?r = None" by code_simp
  have n: "length (pathParams ?r) = strings_Count (url ?r) urlPathParamSeparator" by code_simp
  have l: "length (strings_Split (url ?r) urlSeparator) = 6" by code_simp
  from path_validation_without_leading_placeholder [OF c h m, of "ref_platform ok_net quiet_bodies" empty_world] n l
  have a: "\<exists>splits'. validatePathParams ?r = Inr (None, ?r\<lparr>url := strings_Join splits' urlSeparator\<rparr>)
        \<and> length splits' = 6"
    by auto
  have e: "validatePathParams ?r = Inr (None, ?r\<lparr>url := ''http://h/bar/users/ghazni''\<rparr>)"
    by code_simp
  have n': "length (pathParams ?r) = strings_Count ''http://h/:team/users/:user'' urlPathParamSeparator"
    by code_simp
  from c h m n' a e show ?thesis by blast
qed

text \<open>
  The body and the content type that \<open>resolveBody\<close> selects from the builder's three
  sources, the error of a failed JSON encoding, and what a request that went out carries.
\<close>

lemma body_selection:
  assumes m: "validateMethod r = None" and v: "validatePathParams r = Inr (None, r1)"
  shows "(\<forall>rd. body r = Some rd \<longrightarrow> resolveBody P r1 = Inr (Some rd, contentType r))
     \<and> (\<forall>obj e. body r = None \<and> bodyStruct r = Some obj \<and> json_Marshal P obj = Inl e \<longrightarrow>
           Dispatch P r w = Inr ((None, Some (SerializationFailed e)), r1, w))
     \<and> (\<forall>obj bits. body r = None \<and> bodyStruct r = Some obj \<and> json_Marshal P obj = Inr bits \<longrightarrow>
           resolveBody P r1 = Inr (Some (BytesBuffer bits), ContentTypeJSON))
     \<and> (\<forall>vs. body r = None \<and> bodyStruct r = None \<and> bodyValues r = Some vs \<longrightarrow>
           resolveBody P r1 = Inr (Some (BytesBuffer (Values_Encode P vs)), ContentTypeURLENCODED))
     \<and> (body r = None \<and> bodyStruct r = None \<and> bodyValues r = None \<longrightarrow>
           resolveBody P r1 = Inr (None, contentType r))
     \<and> (\<forall>out r' w' cli req. Dispatch P r w = Inr (out, r', w') \<and> sent w' = sent w @ [(cli, req)] \<longrightarrow>
           (\<exists>b ct. resolveBody P r1 = Inr (b, ct) \<and> req_Body req = b
              \<and> req_Header req = libraryHeaders r ct @ headers r))"
proof -
  from validatePathParams_frame [OF v] have r1: "r1 = r\<lparr>url := url r1\<rparr>" .
  have rb: "resolveBody P r1 = resolveBody P r"
    by (subst r1) simp
  have lh: "libraryHeaders r1 ct = libraryHeaders r ct" "headers r1 = headers r" for ct
    by (subst r1, simp add: libraryHeaders_def)+
  have fail: "Dispatch P r w = Inr ((None, Some (SerializationFailed e)), r1, w)"
    if "body r = None" "bodyStruct r = Some obj" "json_Marshal P obj = Inl e" for obj e
  proof -
    from that have "resolveBody P r1 = Inl (SerializationFailed e)"
      unfolding rb by (simp add: resolveBody_def)
    from Dispatch_body_error [OF m v this] show ?thesis .
  qed
  have sent_req: "\<exists>b ct. resolveBody P r = Inr (b, ct) \<and> req_Body req = b
              \<and> req_Header req = libraryHeaders r ct @ headers r"
    if d: "Dispatch P r w = Inr (out, r', w')" and s: "sent w' = sent w @ [(cli, req)]"
    for out r' w' cli req
  proof -
    from Dispatch_sent [OF d s] v obtain b ct where
      rs: "resolveBody P r1 = Inr (b, ct)" and br: "buildRequest P r1 b ct = Inr req"
      by auto
    from buildRequest_shape [OF br] lh
    have "req_Body req = b" "req_Header req = libraryHeaders r ct @ headers r" by simp_all
    moreover from rs rb have "resolveBody P r = Inr (b, ct)" by simp
    ultimately show ?thesis by blast
  qed
  have explicit: "resolveBody P r = Inr (Some rd, contentType r)" if "body r = Some rd" for rd
    using that by (simp add: resolveBody_def)
  have json: "resolveBody P r = Inr (Some (BytesBuffer bits), ContentTypeJSON)"
    if "body r = None" "bodyStruct r = Some obj" "json_Marshal P obj = Inr bits" for obj bits
    using that by (simp add: resolveBody_def)
  have form: "resolveBody P r = Inr (Some (BytesBuffer (Values_Encode P vs)), ContentTypeURLENCODED)"
    if "body r = None" "bodyStruct r = None" "bodyValues r = Some vs" for vs
    using that by (simp add: resolveBody_def)
  have none: "resolveBody P r = Inr (None, contentType r)"
    if "body r = None" "bodyStruct r = None" "bodyValues r = None"
    using that by (simp add: resolveBody_def)
  show ?thesis
    unfolding rb using explicit fail json form none sent_req by blast
qed

text \<open>
  Claim C2. Dispatch takes one body source by fixed precedence. An explicit reader is used
  and the content type stays the builder's own; otherwise a structured object is
  JSON-encoded, the content type becomes \<open>application/json\<close> and an encoding failure is
  the error Dispatch returns, nothing sent; otherwise form values are URL-encoded with
  \<open>application/x-www-form-urlencoded\<close>; otherwise there is no body and the content
  type stays the builder's own. Dispatch puts that selection on the request: whenever
  \<open>http.NewRequest\<close> accepts the URL, the query (if it is to be unescaped) unescapes and
  the proxy URL (if one is to be used) parses, Dispatch hands a client a request that
  carries the selected body, and the selected content type as the header after the
  basic-auth header and before the caller's headers; and no request it hands over carries
  anything else. Stated for a builder that has passed the two validations.
\<close>

theorem C2_body_precedence:
  assumes m: "validateMethod r = None" and v: "validatePathParams r = Inr (None, r1)"
  shows "(\<forall>rd. body r = Some rd \<longrightarrow> resolveBody P r1 = Inr (Some rd, contentType r))
     \<and> (\<forall>obj e. body r = None \<and> bodyStruct r = Some obj \<and> json_Marshal P obj = Inl e \<longrightarrow>
           Dispatch P r w = Inr ((None, Some (SerializationFailed e)), r1, w))
     \<and> (\<forall>obj bits. body r = None \<and> bodyStruct r = Some obj \<and> json_Marshal P obj = Inr bits \<longrightarrow>
           resolveBody P r1 = Inr (Some (BytesBuffer bits), ContentTypeJSON))
     \<and> (\<forall>vs. body r = None \<and> bodyStruct r = None \<and> bodyValues r = Some vs \<longrightarrow>
           resolveBody P r1 = Inr (Some (BytesBuffer (Values_Encode P vs)), ContentTypeURLENCODED))
     \<and> (body r = None \<and> bodyStruct r = None \<and> bodyValues r = None \<longrightarrow>
           resolveBody P r1 = Inr (None, contentType r))
     \<and> (\<forall>out r' w' cli req. Dispatch P r w = Inr (out, r', w') \<and> sent w' = sent w @ [(cli, req)] \<longrightarrow>
           (\<exists>b ct. resolveBody P r1 = Inr (b, ct) \<and> req_Body req = b
              \<and> req_Header req = libraryHeaders r ct @ headers r))
     \<and> (\<forall>b ct u.
           resolveBody P r1 = Inr (b, ct)
           \<and> http_NewRequest P (method r1) (url r1) = Inr u
           \<and> (queryParams r = [] \<or> \<not> unescapeQueryParams r
                \<or> (\<exists>d. url_QueryUnescape P (Values_Encode P
                       (fold (\<lambda>(k, v) q. Values_Add q k v) (queryParams r) (URL_Query P u))) = Inr d))
           \<and> (httpcli r \<noteq> None \<or> proxyURL r = [] \<or> (\<exists>p. url_Parse P (proxyURL r) = Inr p)) \<longrightarrow>
           (\<exists>out r' w' cli req. Dispatch P r w = Inr (out, r', w')
              \<and> sent w' = sent w @ [(cli, req)] \<and> req_Body req = b
              \<and> req_Header req = libraryHeaders r ct @ headers r))"
proof -
  from validatePathParams_frame [OF v] have r1: "r1 = r\<lparr>url := url r1\<rparr>" .
  have g: "httpcli r1 = httpcli r" "proxyURL r1 = proxyURL r"
    by (subst r1, simp)+
  have goes: "\<exists>out r' w' cli req. Dispatch P r w = Inr (out, r', w')
              \<and> sent w' = sent w @ [(cli, req)] \<and> req_Body req = b
              \<and> req_Header req = libraryHeaders r ct @ headers r"
    if rb: "resolveBody P r1 = Inr (b, ct)"
      and nr: "http_NewRequest P (method r1) (url r1) = Inr u"
      and qok: "queryParams r = [] \<or> \<not> unescapeQueryParams r
                \<or> (\<exists>d. url_QueryUnescape P (Values_Encode P
                       (fold (\<lambda>(k, v) q. Values_Add q k v) (queryParams r) (URL_Query P u))) = Inr d)"
      and pok: "httpcli r \<noteq> None \<or> proxyURL r = [] \<or> (\<exists>p. url_Parse P (proxyURL r) = Inr p)"
    for b ct u
  proof -
    have "\<exists>r2. selectClient P r1 = (None, r2)"
    proof (cases "httpcli r1")
      case None
      with pok g selectClient_built [OF None, of P] show ?thesis by auto
    next
      case (Some c)
      from selectClient_supplied [OF Some, of P] show ?thesis by blast
    qed
    then obtain r2 where sc: "selectClient P r1 = (None, r2)" by blast
    from Dispatch_goes_out [OF m v rb nr qok sc, of w] show ?thesis by blast
  qed
  have new: "\<forall>b ct u.
           resolveBody P r1 = Inr (b, ct)
           \<and> http_NewRequest P (method r1) (url r1) = Inr u
           \<and> (queryParams r = [] \<or> \<not> unescapeQueryParams r
                \<or> (\<exists>d. url_QueryUnescape P (Values_Encode P
                       (fold (\<lambda>(k, v) q. Values_Add q k v) (queryParams r) (URL_Query P u))) = Inr d))
           \<and> (httpcli r \<noteq> None \<or> proxyURL r = [] \<or> (\<exists>p. url_Parse P (proxyURL r) = Inr p)) \<longrightarrow>
           (\<exists>out r' w' cli req. Dispatch P r w = Inr (out, r', w')
              \<and> sent w' = sent w @ [(cli, req)] \<and> req_Body req = b
              \<and> req_Header req = libraryHeaders r ct @ headers r)"
  proof (intro allI impI, elim conjE)
    fix b ct u
    assume "resolveBody P r1 = Inr (b, ct)" "http_NewRequest P (method r1) (url r1) = Inr u"
      "queryParams r = [] \<or> \<not> unescapeQueryParams r
                \<or> (\<exists>d. url_QueryUnescape P (Values_Encode P
                       (fold (\<lambda>(k, v) q. Values_Add q k v) (queryParams r) (URL_Query P u))) = Inr d)"
      "httpcli r \<noteq> None \<or> proxyURL r = [] \<or> (\<exists>p. url_Parse P (proxyURL r) = Inr p)"
    then show "\<exists>out r' w' cli req. Dispatch P r w = Inr (out, r', w')
              \<and> sent w' = sent w @ [(cli, req)] \<and> req_Body req = b
              \<and> req_Header req = libraryHeaders r ct @ headers r"
      by (rule goes)
  qed
  from conjI [OF body_selection [OF m v, of P w] new] show ?thesis
    by (simp only: conj_assoc)
qed

theorem C2_body_precedence_witness:
  "validateMethod (BodyValues (Some [(''username'', [''john''])])
       (BodyStruct (Some (GoString ''bar'')) (New ''POST'' ''http://h/users''))) = None
   \<and> validatePathParams (BodyValues (Some [(''username'', [''john''])])
       (BodyStruct (Some (GoString ''bar'')) (New ''POST'' ''http://h/users'')))
      = Inr (None, BodyValues (Some [(''username'', [''john''])])
       (BodyStruct (Some (GoString ''bar'')) (New ''POST'' ''http://h/users'')))
   \<and> resolveBody (ref_platform ok_net quiet_bodies)
       (BodyValues (Some [(''username'', [''john''])])
         (BodyStruct (Some (GoString ''bar'')) (New ''POST'' ''http://h/users'')))
      = Inr (Some (BytesBuffer (CHR 0x22 # ''bar'' @ [CHR 0x22])), ''application/json'')
   \<and> (\<exists>out r' w' cli req.
         Dispatch (ref_platform ok_net quiet_bodies)
           (BodyValues (Some [(''username'', [''john''])])
             (BodyStruct (Some (GoString ''bar'')) (New ''POST'' ''http://h/users''))) empty_world
           = Inr (out, r', w')
         \<and> sent w' = sent empty_world @ [(cli, req)]
         \<and> req_Body req = Some (BytesBuffer (CHR 0x22 # ''bar'' @ [CHR 0x22]))
         \<and> req_Header req = [(''Content-Type'', ''application/json'')])
   \<and> Dispatch (ref_platform ok_net quiet_bodies)
         (BodyValues (Some [(''username'', [''john''])])
           (BodyStruct (Some (GoString ''bar'')) (New ''POST'' ''http://h/users''))) empty_world
      = Inr ((Some \<lparr>res_StatusCode = 200, res_Status = ''200 OK'', res_Body = NetBody 0\<rparr>, None),
             (BodyValues (Some [(''username'', [''john''])])
               (BodyStruct (Some (GoString ''bar'')) (New ''POST'' ''http://h/users'')))
               \<lparr>transport := Some DefaultTransport,
                httpcli := Some \<lparr>cli_Transport = Some DefaultTransport, cli_Timeout = 30000000000\<rparr>\<rparr>,
             \<lparr>sent = [(\<lparr>cli_Transport = Some DefaultTransport, cli_Timeout = 30000000000\<rparr>,
                        \<lparr>req_Method = ''POST'',
                         req_URL = \<lparr>url_Rest = ''http://h/users'', url_RawQuery = []\<rparr>,
                         req_Header = [(''Content-Type'', ''application/json'')],
                         req_Body = Some (BytesBuffer (CHR 0x22 # ''bar'' @ [CHR 0x22]))\<rparr>)],
              logged = [], closed = []\<rparr>)
   \<and> Dispatch (ref_platform ok_net quiet_bodies)
         (Body (Some (CallerReader 1))
           (BodyValues (Some [(''username'', [''john''])])
             (BodyStruct (Some (GoString ''bar'')) (New ''POST'' ''http://h/users'')))) empty_world
      = Inr ((Some \<lparr>res_StatusCode = 200, res_Status = ''200 OK'', res_Body = NetBody 0\<rparr>, None),
             (Body (Some (CallerReader 1))
               (BodyValues (Some [(''username'', [''john''])])
                 (BodyStruct (Some (GoString ''bar'')) (New ''POST'' ''http://h/users''))))
               \<lparr>transport := Some DefaultTransport,
                httpcli := Some \<lparr>cli_Transport = Some DefaultTransport, cli_Timeout = 30000000000\<rparr>\<rparr>,
             \<lparr>sent = [(\<lparr>cli_Transport = Some DefaultTransport, cli_Timeout = 30000000000\<rparr>,
                        \<lparr>req_Method = ''POST'',
                         req_URL = \<lparr>url_Rest = ''http://h/users'', url_RawQuery = []\<rparr>,
                         req_Header = [],
                         req_Body = Some (CallerReader 1)\<rparr>)],
              logged = [], closed = []\<rparr>)
   \<and> Dispatch (ref_platform ok_net quiet_bodies)
         (BodyValues (Some [(''username'', [''john''])]) (New ''POST'' ''http://h/users'')) empty_world
      = Inr ((Some \<lparr>res_StatusCode = 200, res_Status = ''200 OK'', res_Body = NetBody 0\<rparr>, None),
             (BodyValues (Some [(''username'', [''john''])]) (New ''POST'' ''http://h/users''))
               \<lparr>transport := Some DefaultTransport,
                httpcli := Some \<lparr>cli_Transport = Some DefaultTransport, cli_Timeout = 30000000000\<rparr>\<rparr>,
             \<lparr>sent = [(\<lparr>cli_Transport = Some DefaultTransport, cli_Timeout = 30000000000\<rparr>,
                        \<lparr>req_Method = ''POST'',
                         req_URL = \<lparr>url_Rest = ''http://h/users'', url_RawQuery = []\<rparr>,
                         req_Header = [(''Content-Type'', ''application/x-www-form-urlencoded'')],
                         req_Body = Some (BytesBuffer ''username=john'')\<rparr>)],
              logged = [], closed = []\<rparr>)
   \<and> Dispatch (ref_platform ok_net quiet_bodies)
         (BodyStruct (Some GoChan) (New ''POST'' ''http://h/users'')) empty_world
      = Inr ((None, Some (SerializationFailed ''json: unsupported type: chan int'')),
             BodyStruct (Some GoChan) (New ''POST'' ''http://h/users''), empty_world)"
proof -
  let ?P = "ref_platform ok_net quiet_bodies"
  let ?r = "BodyValues (Some [(''username'', [''john''])])
       (BodyStruct (Some (GoString ''bar'')) (New ''POST'' ''http://h/users'')) :: go_value Request"
  let ?c = "BodyStruct (Some GoChan) (New ''POST'' ''http://h/users'') :: go_value Request"
  let ?u = "\<lparr>url_Rest = ''http://h/users'', url_RawQuery = []\<rparr>"
  let ?b = "Some (BytesBuffer (CHR 0x22 # ''bar'' @ [CHR 0x22]))"
  have m: "validateMethod ?r = None" by code_simp
  have v: "validatePathParams ?r = Inr (None, ?r)" by code_simp
  have mc: "validateMethod ?c = None" by code_simp
  have vc: "validatePathParams ?c = Inr (None, ?c)" by code_simp
  note c2 = C2_body_precedence [OF m v, of ?P empty_world]
  from c2 have a: "resolveBody ?P ?r = Inr (?b, ''application/json'')"
    by (simp add: setters ref_platform_def marshal_def ContentTypeJSON_def)
  have nr: "http_NewRequest ?P (method ?r) (url ?r) = Inr ?u" by code_simp
  have q: "queryParams ?r = []" by (simp add: setters)
  have p: "proxyURL ?r = []" by (simp add: setters)
  from c2 a nr q p
  have "\<exists>out r' w' cli req. Dispatch ?P ?r empty_world = Inr (out, r', w')
         \<and> sent w' = sent empty_world @ [(cli, req)]
         \<and> req_Body req = ?b
         \<and> req_Header req = libraryHeaders ?r ''application/json'' @ headers ?r"
    by blast
  then have s: "\<exists>out r' w' cli req. Dispatch ?P ?r empty_world = Inr (out, r', w')
         \<and> sent w' = sent empty_world @ [(cli, req)]
         \<and> req_Body req = ?b
         \<and> req_Header req = [(''Content-Type'', ''application/json'')]"
    by (simp add: libraryHeaders_def setters)
  have d: "Dispatch ?P ?r empty_world
      = Inr ((Some \<lparr>res_StatusCode = 200, res_Status = ''200 OK'', res_Body = NetBody 0\<rparr>, None),
             ?r\<lparr>transport := Some DefaultTransport,
                httpcli := Some \<lparr>cli_Transport = Some DefaultTransport, cli_Timeout = 30000000000\<rparr>\<rparr>,
             \<lparr>sent = [(\<lparr>cli_Transport = Some DefaultTransport, cli_Timeout = 30000000000\<rparr>,
                        \<lparr>req_Method = ''POST'', req_URL = ?u,
                         req_Header = [(''Content-Type'', ''application/json'')],
                         req_Body = ?b\<rparr>)],
              logged = [], closed = []\<rparr>)"
    by code_simp
  let ?e = "Body (Some (CallerReader 1)) ?r"
  have de: "Dispatch ?P ?e empty_world
      = Inr ((Some \<lparr>res_StatusCode = 200, res_Status = ''200 OK'', res_Body = NetBody 0\<rparr>, None),
             ?e\<lparr>transport := Some DefaultTransport,
                httpcli := Some \<lparr>cli_Transport = Some DefaultTransport, cli_Timeout = 30000000000\<rparr>\<rparr>,
             \<lparr>sent = [(\<lparr>cli_Transport = Some DefaultTransport, cli_Timeout = 30000000000\<rparr>,
                        \<lparr>req_Method = ''POST'', req_URL = ?u,
                         req_Header = [],
                         req_Body = Some (CallerReader 1)\<rparr>)],
              logged = [], closed = []\<rparr>)"
    by code_simp
  let ?f = "BodyValues (Some [(''username'', [''john''])]) (New ''POST'' ''http://h/users'') :: go_value Request"
  have df: "Dispatch ?P ?f empty_world
      = Inr ((Some \<lparr>res_StatusCode = 200, res_Status = ''200 OK'', res_Body = NetBody 0\<rparr>, None),
             ?f\<lparr>transport := Some DefaultTransport,
                httpcli := Some \<lparr>cli_Transport = Some DefaultTransport, cli_Timeout = 30000000000\<rparr>\<rparr>,
             \<lparr>sent = [(\<lparr>cli_Transport = Some DefaultTransport, cli_Timeout = 30000000000\<rparr>,
                        \<lparr>req_Method = ''POST'', req_URL = ?u,
                         req_Header = [(''Content-Type'', ''application/x-www-form-urlencoded'')],
                         req_Body = Some (BytesBuffer ''username=john'')\<rparr>)],
              logged = [], closed = []\<rparr>)"
    by code_simp
  from C2_body_precedence [OF mc vc, of ?P empty_world]
  have b: "Dispatch ?P ?c empty_world
      = Inr ((None, Some (SerializationFailed ''json: unsupported type: chan int'')), ?c, empty_world)"
    by (simp add: setters ref_platform_def marshal_def)
  from m v a s d de df b show ?thesis by blast
qed

text \<open>
  Claim C3. Dispatch returns \<open>errorMethodIsEmpty\<close> exactly when the method is empty, and
  \<open>errMethodUnknown\<close> exactly when the method is not empty and not one of the nine HTTP
  methods; in both cases with no response, the builder and the outside untouched, whatever
  the collaborators are (no body resolution, request construction or network call can
  have happened). A method of the set passes method validation.
\<close>

theorem C3_method_validation:
  "((\<exists>res r' w'. Dispatch P r w = Inr ((res, Some errorMethodIsEmpty), r', w')) = (method r = []))
   \<and> ((\<exists>res r' w'. Dispatch P r w = Inr ((res, Some errMethodUnknown), r', w'))
        = (method r \<noteq> [] \<and> method r \<notin> set http_Methods))
   \<and> (method r = [] \<longrightarrow> Dispatch P r w = Inr ((None, Some errorMethodIsEmpty), r, w))
   \<and> (method r \<noteq> [] \<and> method r \<notin> set http_Methods \<longrightarrow>
        Dispatch P r w = Inr ((None, Some errMethodUnknown), r, w))
   \<and> (method r \<in> set http_Methods \<longrightarrow> validateMethod r = None)"
proof -
  have empty: "Dispatch P r w = Inr ((None, Some errorMethodIsEmpty), r, w)" if "method r = []"
    using that by (intro Dispatch_method_error) (simp add: validateMethod_def)
  have unknown: "Dispatch P r w = Inr ((None, Some errMethodUnknown), r, w)"
    if "method r \<noteq> []" "method r \<notin> set http_Methods"
    using that by (intro Dispatch_method_error) (simp add: validateMethod_def)
  have valid: "validateMethod r = None" if "method r \<in> set http_Methods"
    using that by (auto simp add: validateMethod_def http_Methods_def)
  have only_empty: "method r = []"
    if d: "Dispatch P r w = Inr ((res, Some errorMethodIsEmpty), r', w')" for res r' w'
  proof (rule ccontr)
    assume ne: "method r \<noteq> []"
    show False
    proof (cases "method r \<in> set http_Methods")
      case True
      from Dispatch_later_errors [OF valid [OF True] d] show False by simp
    next
      case False
      from unknown [OF ne False] d show False by simp
    qed
  qed
  have only_unknown: "method r \<noteq> [] \<and> method r \<notin> set http_Methods"
    if d: "Dispatch P r w = Inr ((res, Some errMethodUnknown), r', w')" for res r' w'
  proof (rule ccontr)
    assume n: "\<not> (method r \<noteq> [] \<and> method r \<notin> set http_Methods)"
    show False
    proof (cases "method r = []")
      case True
      from empty [OF True] d show False by simp
    next
      case False
      with n have "method r \<in> set http_Methods" by simp
      from Dispatch_later_errors [OF valid [OF this] d] show False by simp
    qed
  qed
  show ?thesis
    using empty unknown valid only_empty only_unknown by blast
qed

theorem C3_method_validation_witness:
  "Dispatch (ref_platform ok_net quiet_bodies) (New [] []) empty_world
      = Inr ((None, Some errorMethodIsEmpty), New [] [], empty_world)
   \<and> Dispatch (ref_platform ok_net quiet_bodies) (New ''test'' []) empty_world
      = Inr ((None, Some errMethodUnknown), New ''test'' [], empty_world)
   \<and> validateMethod (New ''PATCH'' [] :: go_value Request) = None"
proof -
  from C3_method_validation [of "ref_platform ok_net quiet_bodies" "New [] []" empty_world]
  have a: "Dispatch (ref_platform ok_net quiet_bodies) (New [] []) empty_world
      = Inr ((None, Some errorMethodIsEmpty), New [] [], empty_world)"
    by (simp add: New_def)
  from C3_method_validation [of "ref_platform ok_net quiet_bodies" "New ''test'' []" empty_world]
  have b: "Dispatch (ref_platform ok_net quiet_bodies) (New ''test'' []) empty_world
      = Inr ((None, Some errMethodUnknown), New ''test'' [], empty_world)"
    by (simp add: New_def http_Methods_def)
  from C3_method_validation [of _ "New ''PATCH'' [] :: go_value Request"]
  have c: "validateMethod (New ''PATCH'' [] :: go_value Request) = None"
    by (simp add: New_def http_Methods_def)
  from a b c show ?thesis by blast
qed

text \<open>
  Claim C4 says that a URL and values that pass the count check either have all values
  consumed or fail with the conflict error, and nothing else, a panic included. On the
  builder for \<open>:a/:b\<close> with the one value \<open>x\<close> the validation panics.
\<close>

theorem C4_validation_panics:
  "validatePathParams (PathParams [''x''] (New ''GET'' '':a/:b'' :: 'o Request))
     = Inl (IndexOutOfRange 1 1)"
proof -
  have a: "strings_Contains '':a/:b'' urlPathParamSeparator" by code_simp
  have b: "strings_Count '':a/:b'' urlPathParamSeparator = 1" by code_simp
  have c: "setPathParams (strings_Split '':a/:b'' urlSeparator) [''x''] 0
             = Inl (IndexOutOfRange 1 1)"
    by code_simp
  show ?thesis
    by (simp add: validatePathParams_def PathParams_def New_def a b c)
qed

text \<open>
  The rest of claim C4 holds: the conflict error is returned for no builder at all.
\<close>

theorem conflict_unreachable:
  "validatePathParams r \<noteq> Inr (Some errPathParamConflift, r')"
  by (simp add: validatePathParams_cases)

text \<open>
  Claim C5 says that, once the two count checks have passed, the loop reads
  \<open>pathParams\<close> only below its length, because the pieces that start with \<open>:\<close> are no
  more than the occurrences of \<open>/:\<close>. The URL \<open>:a/:b\<close> with the one value \<open>x\<close> passes
  both checks (one occurrence, one value) and has two such pieces; the loop reads index 1
  of a list of length 1.
\<close>

theorem C5_leading_placeholder_reads_out_of_range:
  "strings_Contains '':a/:b'' urlPathParamSeparator
   \<and> strings_Count '':a/:b'' urlPathParamSeparator = length [''x'']
   \<and> placeholders (strings_Split '':a/:b'' urlSeparator) = 2
   \<and> setPathParams (strings_Split '':a/:b'' urlSeparator) [''x''] 0 = Inl (IndexOutOfRange 1 1)"
  by code_simp

text \<open>
  Path validation panics exactly when the URL contains \<open>/:\<close>, the values are as many as
  its occurrences, and the URL starts with \<open>:\<close>.
\<close>

theorem panic_iff:
  "(\<exists>p. validatePathParams r = Inl p) =
     (strings_Contains (url r) urlPathParamSeparator
      \<and> length (pathParams r) = strings_Count (url r) urlPathParamSeparator
      \<and> strings_HasPrefix (url r) pathParamIndicator)"
  by (auto simp add: validatePathParams_cases Contains_Count)

text \<open>
  Claim C6 says that the raw query is the encoding of the query-parameter mapping. The
  code starts from the query values the URL already has and adds the mapping's entries to
  them: for \<open>http://h/p?a=1\<close> with the one parameter \<open>b = 2\<close> the request goes out with
  the raw query \<open>a=1&b=2\<close>, while the mapping alone encodes to \<open>b=2\<close>.
\<close>

theorem C6_existing_query_counterexample:
  "Dispatch (ref_platform ok_net quiet_bodies)
      (QueryParam ''b'' ''2'' (New ''GET'' ''http://h/p?a=1'')) empty_world
    = Inr ((Some \<lparr>res_StatusCode = 200, res_Status = ''200 OK'', res_Body = NetBody 0\<rparr>, None),
           (QueryParam ''b'' ''2'' (New ''GET'' ''http://h/p?a=1''))
             \<lparr>transport := Some DefaultTransport,
              httpcli := Some \<lparr>cli_Transport = Some DefaultTransport, cli_Timeout = 30000000000\<rparr>\<rparr>,
           \<lparr>sent = [(\<lparr>cli_Transport = Some DefaultTransport, cli_Timeout = 30000000000\<rparr>,
                      \<lparr>req_Method = ''GET'',
                       req_URL = \<lparr>url_Rest = ''http://h/p'', url_RawQuery = ''a=1&b=2''\<rparr>,
                       req_Header = [], req_Body = None\<rparr>)],
            logged = [], closed = []\<rparr>)
   \<and> queryParams (QueryParam ''b'' ''2'' (New ''GET'' ''http://h/p?a=1'' :: go_value Request))
       = [(''b'', ''2'')]
   \<and> Values_Encode (ref_platform ok_net quiet_bodies) [(''b'', [''2''])] = ''b=2''
   \<and> ''a=1&b=2'' \<noteq> ''b=2''"
  by code_simp

text \<open>
  Claim C6, amended. For a builder with at least one query parameter that has passed
  validation, body resolution and the construction of the request (with parsed URL \<open>u\<close>),
  let \<open>enc\<close> be the encoding of the URL's own query values with every entry of the
  mapping added. Without \<open>unescapeQueryParams\<close> the raw query of the request is \<open>enc\<close>.
  With it, \<open>enc\<close> is still computed and then percent-decoded: the raw query is the
  decoded string, and if the decoding fails Dispatch returns \<open>QueryUnescapeFailed\<close> with
  nothing sent. The same holds of any request Dispatch hands to a client.
\<close>

theorem C6_query_params:
  assumes q: "queryParams r \<noteq> []"
      and m: "validateMethod r = None" and v: "validatePathParams r = Inr (None, r1)"
      and rb: "resolveBody P r1 = Inr (b, ct)"
      and nr: "http_NewRequest P (method r1) (url r1) = Inr u"
      and enc: "enc = Values_Encode P (fold (\<lambda>(k, v) q. Values_Add q k v) (queryParams r) (URL_Query P u))"
  shows "(\<not> unescapeQueryParams r \<longrightarrow>
            (\<exists>req. buildRequest P r1 b ct = Inr req \<and> url_RawQuery (req_URL req) = enc))
     \<and> (\<forall>dec. unescapeQueryParams r \<and> url_QueryUnescape P enc = Inr dec \<longrightarrow>
            (\<exists>req. buildRequest P r1 b ct = Inr req \<and> url_RawQuery (req_URL req) = dec))
     \<and> (\<forall>e. unescapeQueryParams r \<and> url_QueryUnescape P enc = Inl e \<longrightarrow>
            Dispatch P r w = Inr ((None, Some (QueryUnescapeFailed e)), r1, w))
     \<and> (\<forall>out r' w' cli req. Dispatch P r w = Inr (out, r', w') \<and> sent w' = sent w @ [(cli, req)] \<longrightarrow>
            (if unescapeQueryParams r then url_QueryUnescape P enc = Inr (url_RawQuery (req_URL req))
             else url_RawQuery (req_URL req) = enc))"
proof -
  from validatePathParams_frame [OF v] have r1: "r1 = r\<lparr>url := url r1\<rparr>" .
  have f: "queryParams r1 = queryParams r" "unescapeQueryParams r1 = unescapeQueryParams r"
    by (subst r1, simp)+
  let ?req = "\<lparr>req_Method = method r1, req_URL = u,
               req_Header = libraryHeaders r1 ct @ headers r1, req_Body = b\<rparr>"
  have br: "buildRequest P r1 b ct = setQueryParams P r1 ?req"
    by (rule buildRequest_unfold [OF nr])
  have sq: "setQueryParams P r1 ?req =
     (if unescapeQueryParams r then
        (case url_QueryUnescape P enc of
           Inl e \<Rightarrow> Inl (QueryUnescapeFailed e)
         | Inr dec \<Rightarrow> Inr (?req\<lparr>req_URL := u\<lparr>url_RawQuery := dec\<rparr>\<rparr>))
      else Inr (?req\<lparr>req_URL := u\<lparr>url_RawQuery := enc\<rparr>\<rparr>))"
    using q by (simp add: setQueryParams_def Let_def f enc split: sum.splits)
  have plain: "\<exists>req. buildRequest P r1 b ct = Inr req \<and> url_RawQuery (req_URL req) = enc"
    if "\<not> unescapeQueryParams r"
    using that by (simp add: br sq)
  have decoded: "\<exists>req. buildRequest P r1 b ct = Inr req \<and> url_RawQuery (req_URL req) = dec"
    if "unescapeQueryParams r" "url_QueryUnescape P enc = Inr dec" for dec
    using that by (simp add: br sq)
  have failed: "Dispatch P r w = Inr ((None, Some (QueryUnescapeFailed e)), r1, w)"
    if "unescapeQueryParams r" "url_QueryUnescape P enc = Inl e" for e
  proof -
    from that have "buildRequest P r1 b ct = Inl (QueryUnescapeFailed e)"
      by (simp add: br sq)
    from Dispatch_build_error [OF m v rb this] show ?thesis .
  qed
  have sent_req: "if unescapeQueryParams r then url_QueryUnescape P enc = Inr (url_RawQuery (req_URL req))
             else url_RawQuery (req_URL req) = enc"
    if d: "Dispatch P r w = Inr (out, r', w')" and s: "sent w' = sent w @ [(cli, req)]"
    for out r' w' cli req
  proof -
    from Dispatch_sent [OF d s] v rb have "buildRequest P r1 b ct = Inr req" by auto
    then show ?thesis
      by (auto simp add: br sq split: if_splits sum.splits)
  qed
  show ?thesis
    using plain decoded failed sent_req by blast
qed

text \<open>
  The amended claim at work: a value with a space and an ampersand, encoded and decoded
  again; and a platform whose \<open>QueryUnescape\<close> rejects every string, for the failing
  branch.
\<close>

theorem C6_query_params_witness:
  "Dispatch (ref_platform ok_net quiet_bodies)
      (UnescapeQueryParams True (QueryParam ''b'' ''x y&z'' (New ''GET'' ''http://h/p''))) empty_world
    = Inr ((Some \<lparr>res_StatusCode = 200, res_Status = ''200 OK'', res_Body = NetBody 0\<rparr>, None),
           (UnescapeQueryParams True (QueryParam ''b'' ''x y&z'' (New ''GET'' ''http://h/p'')))
             \<lparr>transport := Some DefaultTransport,
              httpcli := Some \<lparr>cli_Transport = Some DefaultTransport, cli_Timeout = 30000000000\<rparr>\<rparr>,
           \<lparr>sent = [(\<lparr>cli_Transport = Some DefaultTransport, cli_Timeout = 30000000000\<rparr>,
                      \<lparr>req_Method = ''GET'',
                       req_URL = \<lparr>url_Rest = ''http://h/p'', url_RawQuery = ''b=x y&z''\<rparr>,
                       req_Header = [], req_Body = None\<rparr>)],
            logged = [], closed = []\<rparr>)
   \<and> Values_Encode (ref_platform ok_net quiet_bodies)
         (fold (\<lambda>(k, v) q. Values_Add q k v) [(''b'', ''x y&z'')]
            (URL_Query (ref_platform ok_net quiet_bodies) \<lparr>url_Rest = ''http://h/p'', url_RawQuery = []\<rparr>))
       = ''b=x+y%26z''
   \<and> url_QueryUnescape (ref_platform ok_net quiet_bodies) ''b=x+y%26z'' = Inr ''b=x y&z''
   \<and> (\<exists>req. buildRequest (ref_platform ok_net quiet_bodies)
                (UnescapeQueryParams True (QueryParam ''b'' ''x y&z'' (New ''GET'' ''http://h/p'')))
                None [] = Inr req
            \<and> url_RawQuery (req_URL req) = ''b=x y&z'')
   \<and> Dispatch ((ref_platform ok_net quiet_bodies)\<lparr>url_QueryUnescape := (\<lambda>s. Inl ''invalid URL escape'')\<rparr>)
        (UnescapeQueryParams True (QueryParam ''b'' ''x y&z'' (New ''GET'' ''http://h/p''))) empty_world
    = Inr ((None, Some (QueryUnescapeFailed ''invalid URL escape'')),
           UnescapeQueryParams True (QueryParam ''b'' ''x y&z'' (New ''GET'' ''http://h/p'')),
           empty_world)"
proof -
  let ?P = "ref_platform ok_net quiet_bodies"
  let ?Q = "?P\<lparr>url_QueryUnescape := (\<lambda>s. Inl ''invalid URL escape'')\<rparr>"
  let ?r = "UnescapeQueryParams True (QueryParam ''b'' ''x y&z'' (New ''GET'' ''http://h/p''))
              :: go_value Request"
  let ?u = "\<lparr>url_Rest = ''http://h/p'', url_RawQuery = []\<rparr>"
  have q: "queryParams ?r \<noteq> []" by code_simp
  have m: "validateMethod ?r = None" by code_simp
  have v: "validatePathParams ?r = Inr (None, ?r)" by code_simp
  have rb: "resolveBody ?P ?r = Inr (None, [])" by code_simp
  have nr: "http_NewRequest ?P (method ?r) (url ?r) = Inr ?u" by code_simp
  have enc: "''b=x+y%26z'' = Values_Encode ?P
               (fold (\<lambda>(k, v) q. Values_Add q k v) (queryParams ?r) (URL_Query ?P ?u))"
    by code_simp
  have un: "url_QueryUnescape ?P ''b=x+y%26z'' = Inr ''b=x y&z''" by code_simp
  have u: "unescapeQueryParams ?r" by code_simp
  from C6_query_params [OF q m v rb nr enc, of empty_world] u un
  have a: "\<exists>req. buildRequest ?P ?r None [] = Inr req \<and> url_RawQuery (req_URL req) = ''b=x y&z''"
    by blast
  have rbQ: "resolveBody ?Q ?r = Inr (None, [])"
    by (simp add: resolveBody_def setters)
  have nrQ: "http_NewRequest ?Q (method ?r) (url ?r) = Inr ?u"
    using nr by (simp add: ref_platform_def)
  have encQ: "''b=x+y%26z'' = Values_Encode ?Q
               (fold (\<lambda>(k, v) q. Values_Add q k v) (queryParams ?r) (URL_Query ?Q ?u))"
    using enc by (simp add: ref_platform_def)
  have unQ: "url_QueryUnescape ?Q ''b=x+y%26z'' = Inl ''invalid URL escape''"
    by simp
  from C6_query_params [OF q m v rbQ nrQ encQ, of empty_world] u unQ
  have b: "Dispatch ?Q ?r empty_world
             = Inr ((None, Some (QueryUnescapeFailed ''invalid URL escape'')), ?r, empty_world)"
    by blast
  have d: "Dispatch ?P ?r empty_world
    = Inr ((Some \<lparr>res_StatusCode = 200, res_Status = ''200 OK'', res_Body = NetBody 0\<rparr>, None),
           ?r\<lparr>transport := Some DefaultTransport,
              httpcli := Some \<lparr>cli_Transport = Some DefaultTransport, cli_Timeout = 30000000000\<rparr>\<rparr>,
           \<lparr>sent = [(\<lparr>cli_Transport = Some DefaultTransport, cli_Timeout = 30000000000\<rparr>,
                      \<lparr>req_Method = ''GET'',
                       req_URL = \<lparr>url_Rest = ''http://h/p'', url_RawQuery = ''b=x y&z''\<rparr>,
                       req_Header = [], req_Body = None\<rparr>)],
            logged = [], closed = []\<rparr>)"
    by code_simp
  have e: "Values_Encode ?P (fold (\<lambda>(k, v) q. Values_Add q k v) [(''b'', ''x y&z'')] (URL_Query ?P ?u))
             = ''b=x+y%26z''"
    by code_simp
  from d e un a b show ?thesis by blast
qed

text \<open>
  Claim C7. In the request that Dispatch builds, and so in any request it hands to a
  client, the headers before the caller's own start with \<open>Authorization\<close> exactly when
  the username or the password is not empty, and its value is \<open>Basic\<close>, a space, and the
  standard base64 encoding of username, one colon, password, also when one of the two is
  empty. The only other header there is the content type; a header the caller set under
  the same name comes after, on its own.
\<close>

theorem C7_basic_auth:
  "(\<forall>b ct req. buildRequest P r b ct = Inr req \<longrightarrow>
      req_Header req =
        (if username r \<noteq> [] \<or> password r \<noteq> []
         then [(''Authorization'',
                ''Basic '' @ base64_StdEncoding_EncodeToString (username r @ '':'' @ password r))]
         else [])
        @ (if ct \<noteq> [] then [(''Content-Type'', ct)] else [])
        @ headers r)
   \<and> (\<forall>out r' w' cli req. Dispatch P r w = Inr (out, r', w') \<and> sent w' = sent w @ [(cli, req)] \<longrightarrow>
        (\<exists>ct. req_Header req =
           (if username r \<noteq> [] \<or> password r \<noteq> []
            then [(''Authorization'',
                   ''Basic '' @ base64_StdEncoding_EncodeToString (username r @ '':'' @ password r))]
            else [])
           @ (if ct \<noteq> [] then [(''Content-Type'', ct)] else [])
           @ headers r))"
proof -
  have built: "req_Header req =
        (if username r \<noteq> [] \<or> password r \<noteq> []
         then [(''Authorization'',
                ''Basic '' @ base64_StdEncoding_EncodeToString (username r @ '':'' @ password r))]
         else [])
        @ (if ct \<noteq> [] then [(''Content-Type'', ct)] else [])
        @ headers r"
    if br: "buildRequest P r b ct = Inr req" for r :: "'a Request" and b ct req
    using buildRequest_shape [OF br]
    by (auto simp add: libraryHeaders_def basicAuth_def Let_def)
  have dispatched: "\<exists>ct. req_Header req =
           (if username r \<noteq> [] \<or> password r \<noteq> []
            then [(''Authorization'',
                   ''Basic '' @ base64_StdEncoding_EncodeToString (username r @ '':'' @ password r))]
            else [])
           @ (if ct \<noteq> [] then [(''Content-Type'', ct)] else [])
           @ headers r"
    if d: "Dispatch P r w = Inr (out, r', w')" and s: "sent w' = sent w @ [(cli, req)]"
    for out r' w' cli req
  proof -
    from Dispatch_sent [OF d s] obtain r1 b ct where
      v: "validatePathParams r = Inr (None, r1)" and br: "buildRequest P r1 b ct = Inr req"
      by blast
    from validatePathParams_frame [OF v] have r1: "r1 = r\<lparr>url := url r1\<rparr>" .
    have f: "username r1 = username r" "password r1 = password r" "headers r1 = headers r"
      by (subst r1, simp)+
    from built [OF br] f show ?thesis by auto
  qed
  from built dispatched show ?thesis by blast
qed

theorem C7_basic_auth_witness:
  "Dispatch (ref_platform ok_net quiet_bodies)
      (BasicAuth ''foo'' ''foopazz''
        (Header ''Authorization'' ''ksjhf23j1lkj23'' (New ''POST'' ''http://h/users'')))
      empty_world
    = Inr ((Some \<lparr>res_StatusCode = 200, res_Status = ''200 OK'', res_Body = NetBody 0\<rparr>, None),
           (BasicAuth ''foo'' ''foopazz''
             (Header ''Authorization'' ''ksjhf23j1lkj23'' (New ''POST'' ''http://h/users'')))
             \<lparr>transport := Some DefaultTransport,
              httpcli := Some \<lparr>cli_Transport = Some DefaultTransport, cli_Timeout = 30000000000\<rparr>\<rparr>,
           \<lparr>sent = [(\<lparr>cli_Transport = Some DefaultTransport, cli_Timeout = 30000000000\<rparr>,
                      \<lparr>req_Method = ''POST'',
                       req_URL = \<lparr>url_Rest = ''http://h/users'', url_RawQuery = []\<rparr>,
                       req_Header = [(''Authorization'', ''Basic Zm9vOmZvb3Bheno=''),
                                     (''Authorization'', ''ksjhf23j1lkj23'')],
                       req_Body = None\<rparr>)],
            logged = [], closed = []\<rparr>)
   \<and> (\<exists>ct. [(''Authorization'', ''Basic Zm9vOmZvb3Bheno=''), (''Authorization'', ''ksjhf23j1lkj23'')]
          = [(''Authorization'', ''Basic '' @ base64_StdEncoding_EncodeToString (''foo'' @ '':'' @ ''foopazz''))]
            @ (if ct \<noteq> [] then [(''Content-Type'', ct)] else [])
            @ [(''Authorization'', ''ksjhf23j1lkj23'')])"
proof -
  let ?P = "ref_platform ok_net quiet_bodies"
  let ?r = "BasicAuth ''foo'' ''foopazz''
        (Header ''Authorization'' ''ksjhf23j1lkj23'' (New ''POST'' ''http://h/users'')) :: go_value Request"
  let ?cli = "\<lparr>cli_Transport = Some DefaultTransport, cli_Timeout = 30000000000\<rparr>"
  let ?req = "\<lparr>req_Method = ''POST'',
                       req_URL = \<lparr>url_Rest = ''http://h/users'', url_RawQuery = []\<rparr>,
                       req_Header = [(''Authorization'', ''Basic Zm9vOmZvb3Bheno=''),
                                     (''Authorization'', ''ksjhf23j1lkj23'')],
                       req_Body = None\<rparr>"
  let ?w = "\<lparr>sent = [(?cli, ?req)], logged = [], closed = []\<rparr>"
  have d: "Dispatch ?P ?r empty_world
    = Inr ((Some \<lparr>res_StatusCode = 200, res_Status = ''200 OK'', res_Body = NetBody 0\<rparr>, None),
           ?r\<lparr>transport := Some DefaultTransport, httpcli := Some ?cli\<rparr>, ?w)"
    by code_simp
  have s: "sent ?w = sent empty_world @ [(?cli, ?req)]"
    by (simp add: empty_world_def)
  have "\<exists>ct. req_Header ?req =
           (if username ?r \<noteq> [] \<or> password ?r \<noteq> []
            then [(''Authorization'',
                   ''Basic '' @ base64_StdEncoding_EncodeToString (username ?r @ '':'' @ password ?r))]
            else [])
           @ (if ct \<noteq> [] then [(''Content-Type'', ct)] else [])
           @ headers ?r"
    using C7_basic_auth [of ?P ?r empty_world] d s by blast
  then have "\<exists>ct. [(''Authorization'', ''Basic Zm9vOmZvb3Bheno=''), (''Authorization'', ''ksjhf23j1lkj23'')]
          = [(''Authorization'', ''Basic '' @ base64_StdEncoding_EncodeToString (''foo'' @ '':'' @ ''foopazz''))]
            @ (if ct \<noteq> [] then [(''Content-Type'', ct)] else [])
            @ [(''Authorization'', ''ksjhf23j1lkj23'')]"
    by (simp add: setters)
  with d show ?thesis by blast
qed

text \<open>
  Claim C8 says that \<open>DispatchScan\<close> called with a nil decode target returns
  \<open>errorResponseStructIsNil\<close> at once, with no validation, network call or change of
  state. The check is \<open>response == nil\<close> on an interface value, and a nil pointer of a
  type is not the nil interface: with such a target \<open>DispatchScan\<close> runs Dispatch, the
  request goes out, the answer is decoded and the body closed, and no error comes back.
\<close>

theorem C8_nil_pointer_target_dispatches:
  "DispatchScan (ref_platform ok_net foo_bodies) (New ''POST'' ''http://h/users'')
       (Some GoNilPtr) empty_world
     = Inr (None, Some GoNilPtr,
            (New ''POST'' ''http://h/users'')
              \<lparr>transport := Some DefaultTransport,
               httpcli := Some \<lparr>cli_Transport = Some DefaultTransport, cli_Timeout = 30000000000\<rparr>\<rparr>,
            \<lparr>sent = [(\<lparr>cli_Transport = Some DefaultTransport, cli_Timeout = 30000000000\<rparr>,
                       \<lparr>req_Method = ''POST'',
                        req_URL = \<lparr>url_Rest = ''http://h/users'', url_RawQuery = []\<rparr>,
                        req_Header = [], req_Body = None\<rparr>)],
             logged = [], closed = [NetBody 0]\<rparr>)"
  by code_simp

text \<open>
  \<open>DispatchScan\<close> returns \<open>errorResponseStructIsNil\<close> for the nil interface and for no
  other target, whatever the builder and the collaborators are.
\<close>

theorem nil_target_error_iff:
  "(\<exists>t r' w'. DispatchScan P r response w = Inr (Some errorResponseStructIsNil, t, r', w'))
     = (response = None)"
proof (cases response)
  case None
  then show ?thesis by (simp add: DispatchScan_def)
next
  case (Some target)
  have "DispatchScan P r (Some target) w \<noteq> Inr (Some errorResponseStructIsNil, t, r', w')"
    for t r' w'
  proof
    assume a: "DispatchScan P r (Some target) w = Inr (Some errorResponseStructIsNil, t, r', w')"
    then obtain res w0 where d: "Dispatch P r w = Inr ((res, Some errorResponseStructIsNil), r', w0)"
      by (auto simp add: DispatchScan_def split: sum.splits prod.splits option.splits)
    from Dispatch_cases [OF d] show False
      by (auto simp add: validateMethod_def split: if_splits
            dest: validatePathParams_errors resolveBody_errors buildRequest_errors
              selectClient_errors send_errors)
  qed
  with Some show ?thesis by simp
qed

text \<open>
  What claim C8 says of the other targets, and of the nil interface, holds.
  \<open>DispatchScan\<close> with the nil interface returns \<open>errorResponseStructIsNil\<close> at once: the
  builder and the outside are as before. With another target it runs Dispatch; an
  error of Dispatch comes back unchanged (Dispatch returns no response with an error, so no
  body is left to close); a decoding failure comes back as \<open>DecodeFailed\<close> with the
  status code of the response, and the body is closed, as it is after a decoding that
  succeeds.
\<close>

theorem DispatchScan_outcomes:
  "DispatchScan P r None w = Inr (Some errorResponseStructIsNil, None, r, w)
   \<and> (\<forall>target res e r' w'. Dispatch P r w = Inr ((res, Some e), r', w') \<longrightarrow>
         res = None \<and> DispatchScan P r (Some target) w = Inr (Some e, None, r', w'))
   \<and> (\<forall>target rs r' w' e. Dispatch P r w = Inr ((Some rs, None), r', w')
         \<and> json_Decode P (res_Body rs) target = Inl e \<longrightarrow>
         DispatchScan P r (Some target) w
           = Inr (Some (DecodeFailed (res_StatusCode rs) e), None, r',
                  w'\<lparr>closed := closed w' @ [res_Body rs]\<rparr>))
   \<and> (\<forall>target rs r' w' t. Dispatch P r w = Inr ((Some rs, None), r', w')
         \<and> json_Decode P (res_Body rs) target = Inr t \<longrightarrow>
         DispatchScan P r (Some target) w
           = Inr (None, Some t, r', w'\<lparr>closed := closed w' @ [res_Body rs]\<rparr>))"
proof -
  have nil: "DispatchScan P r None w = Inr (Some errorResponseStructIsNil, None, r, w)"
    by (simp add: DispatchScan_def)
  have err: "res = None \<and> DispatchScan P r (Some target) w = Inr (Some e, None, r', w')"
    if d: "Dispatch P r w = Inr ((res, Some e), r', w')" for target res e r' w'
  proof -
    from Dispatch_error_no_response [OF d] have "res = None" .
    with d show ?thesis by (simp add: DispatchScan_def)
  qed
  have bad: "DispatchScan P r (Some target) w
           = Inr (Some (DecodeFailed (res_StatusCode rs) e), None, r',
                  w'\<lparr>closed := closed w' @ [res_Body rs]\<rparr>)"
    if "Dispatch P r w = Inr ((Some rs, None), r', w')" "json_Decode P (res_Body rs) target = Inl e"
    for target rs r' w' e
    using that by (simp add: DispatchScan_def)
  have good: "DispatchScan P r (Some target) w
           = Inr (None, Some t, r', w'\<lparr>closed := closed w' @ [res_Body rs]\<rparr>)"
    if "Dispatch P r w = Inr ((Some rs, None), r', w')" "json_Decode P (res_Body rs) target = Inr t"
    for target rs r' w' t
    using that by (simp add: DispatchScan_def)
  show ?thesis
    using nil err bad good by blast
qed

theorem DispatchScan_outcomes_witness:
  "DispatchScan (ref_platform ok_net quiet_bodies) (New ''POST'' ''http://h/users'') None empty_world
     = Inr (Some errorResponseStructIsNil, None, New ''POST'' ''http://h/users'', empty_world)
   \<and> DispatchScan (ref_platform ok_net quiet_bodies) (New [] ''http://h/users'') (Some (GoString []))
       empty_world
     = Inr (Some errorMethodIsEmpty, None, New [] ''http://h/users'', empty_world)
   \<and> DispatchScan (ref_platform ok_net quiet_bodies) (New ''POST'' ''http://h/users'')
       (Some (GoString [])) empty_world
     = Inr (Some (DecodeFailed 200 ''EOF''), None,
            (New ''POST'' ''http://h/users'')
              \<lparr>transport := Some DefaultTransport,
               httpcli := Some \<lparr>cli_Transport = Some DefaultTransport, cli_Timeout = 30000000000\<rparr>\<rparr>,
            \<lparr>sent = [(\<lparr>cli_Transport = Some DefaultTransport, cli_Timeout = 30000000000\<rparr>,
                       \<lparr>req_Method = ''POST'',
                        req_URL = \<lparr>url_Rest = ''http://h/users'', url_RawQuery = []\<rparr>,
                        req_Header = [], req_Body = None\<rparr>)],
             logged = [], closed = [NetBody 0]\<rparr>)
   \<and> DispatchScan (ref_platform ok_net foo_bodies) (New ''POST'' ''http://h/users'')
       (Some (GoString [])) empty_world
     = Inr (None, Some (GoString ''foo''),
            (New ''POST'' ''http://h/users'')
              \<lparr>transport := Some DefaultTransport,
               httpcli := Some \<lparr>cli_Transport = Some DefaultTransport, cli_Timeout = 30000000000\<rparr>\<rparr>,
            \<lparr>sent = [(\<lparr>cli_Transport = Some DefaultTransport, cli_Timeout = 30000000000\<rparr>,
                       \<lparr>req_Method = ''POST'',
                        req_URL = \<lparr>url_Rest = ''http://h/users'', url_RawQuery = []\<rparr>,
                        req_Header = [], req_Body = None\<rparr>)],
             logged = [], closed = [NetBody 0]\<rparr>)"
proof -
  let ?P = "ref_platform ok_net quiet_bodies"
  let ?F = "ref_platform ok_net foo_bodies"
  let ?r = "New ''POST'' ''http://h/users'' :: go_value Request"
  let ?e = "New [] ''http://h/users'' :: go_value Request"
  let ?cli = "\<lparr>cli_Transport = Some DefaultTransport, cli_Timeout = 30000000000\<rparr>"
  let ?req = "\<lparr>req_Method = ''POST'',
               req_URL = \<lparr>url_Rest = ''http://h/users'', url_RawQuery = []\<rparr>,
               req_Header = [], req_Body = None\<rparr>"
  let ?res = "\<lparr>res_StatusCode = 200, res_Status = ''200 OK'', res_Body = NetBody 0\<rparr>"
  let ?r' = "?r\<lparr>transport := Some DefaultTransport, httpcli := Some ?cli\<rparr>"
  let ?w' = "\<lparr>sent = [(?cli, ?req)], logged = [], closed = []\<rparr>"
  from DispatchScan_outcomes [of ?P ?r empty_world]
  have a: "DispatchScan ?P ?r None empty_world
             = Inr (Some errorResponseStructIsNil, None, ?r, empty_world)"
    by blast
  have de: "Dispatch ?P ?e empty_world = Inr ((None, Some errorMethodIsEmpty), ?e, empty_world)"
    by code_simp
  from DispatchScan_outcomes [of ?P ?e empty_world] de
  have b: "DispatchScan ?P ?e (Some (GoString [])) empty_world
             = Inr (Some errorMethodIsEmpty, None, ?e, empty_world)"
    by blast
  have d: "Dispatch ?P ?r empty_world = Inr ((Some ?res, None), ?r', ?w')"
    by code_simp
  have j: "json_Decode ?P (res_Body ?res) (GoString []) = Inl ''EOF''"
    by code_simp
  from DispatchScan_outcomes [of ?P ?r empty_world] d j
  have "DispatchScan ?P ?r (Some (GoString [])) empty_world
          = Inr (Some (DecodeFailed (res_StatusCode ?res) ''EOF''), None, ?r',
                 ?w'\<lparr>closed := closed ?w' @ [res_Body ?res]\<rparr>)"
    by blast
  then have c: "DispatchScan ?P ?r (Some (GoString [])) empty_world
          = Inr (Some (DecodeFailed 200 ''EOF''), None, ?r',
                 \<lparr>sent = [(?cli, ?req)], logged = [], closed = [NetBody 0]\<rparr>)"
    by simp
  have dF: "Dispatch ?F ?r empty_world = Inr ((Some ?res, None), ?r', ?w')"
    by code_simp
  have jF: "json_Decode ?F (res_Body ?res) (GoString []) = Inr (GoString ''foo'')"
    by code_simp
  from DispatchScan_outcomes [of ?F ?r empty_world] dF jF
  have "DispatchScan ?F ?r (Some (GoString [])) empty_world
          = Inr (None, Some (GoString ''foo''), ?r',
                 ?w'\<lparr>closed := closed ?w' @ [res_Body ?res]\<rparr>)"
    by blast
  then have f: "DispatchScan ?F ?r (Some (GoString [])) empty_world
          = Inr (None, Some (GoString ''foo''), ?r',
                 \<lparr>sent = [(?cli, ?req)], logged = [], closed = [NetBody 0]\<rparr>)"
    by simp
  from a b c f show ?thesis by blast
qed





text \<open>
  Claim C10. For every URL that does not contain the placeholder separator \<open>/:\<close>, and
  every list of path-parameter values, of any length, path-parameter validation returns
  no error and leaves the builder as it was, the \<open>url\<close> field and every other field.
\<close>

theorem C10_no_placeholder_noop:
  "\<not> strings_Contains (url r) urlPathParamSeparator \<Longrightarrow> validatePathParams r = Inr (None, r)"
  by (simp add: validatePathParams_def)

theorem C10_no_placeholder_noop_witness:
  "\<not> strings_Contains (url (PathParams [''x'', ''y''] (New ''GET'' ''http://h/users'' :: unit Request)))
        urlPathParamSeparator
   \<and> validatePathParams (PathParams [''x'', ''y''] (New ''GET'' ''http://h/users'' :: unit Request))
        = Inr (None, PathParams [''x'', ''y''] (New ''GET'' ''http://h/users''))"
proof -
  have h: "\<not> strings_Contains
               (url (PathParams [''x'', ''y''] (New ''GET'' ''http://h/users'' :: unit Request)))
               urlPathParamSeparator"
    by code_simp
  from h C10_no_placeholder_noop [OF h] show ?thesis by blast
qed

end
